theory Spec2Isabelle
  imports Complex_Main "HOL-Library.AList" "HOL-Library.Monad_Syntax" "HOL-Library.Log_Nat"
begin

section \<open>Numbers\<close>

text \<open>
  A value of the TypeScript type \<open>number\<close>, an IEEE 754 double: \<open>NaN\<close>,
  \<open>Infinity\<close>, \<open>-Infinity\<close>, or a finite double, written \<open>Fin q\<close> with the
  rational \<open>q\<close> that the double denotes. A rational that is not a double stands for
  the double nearest to it, as a decimal literal does: the arithmetic below rounds
  its operands first. The two zeros are one number, as they are for \<open>===\<close>.
\<close>

datatype jsnum = NaN | PInf | NInf | Fin rat

text \<open>The power \<open>2^k\<close> for an integer \<open>k\<close>.\<close>

definition pow2 :: "int \<Rightarrow> rat" where
  "pow2 k = (if 0 \<le> k then 2 ^ nat k else 1 / 2 ^ nat (- k))"

text \<open>
  For \<open>q > 0\<close>, the integer \<open>e\<close> with \<open>2^e \<le> q < 2^(e+1)\<close>: the difference of the
  bit lengths of the numerator and the denominator, or one less.
\<close>

definition ilog2 :: "rat \<Rightarrow> int" where
  "ilog2 q =
     (let d = bitlen (fst (quotient_of q)) - bitlen (snd (quotient_of q))
      in if pow2 d \<le> q then d else d - 1)"

text \<open>The integer nearest to \<open>r\<close>, the even one of the two on a tie.\<close>

definition round_half_even :: "rat \<Rightarrow> int" where
  "round_half_even r =
     (let f = \<lfloor>r\<rfloor>; d = r - of_int f
      in if d < 1 / 2 then f else if 1 / 2 < d then f + 1 else if even f then f else f + 1)"

text \<open>
  The double nearest to \<open>q\<close> (round to nearest, ties to even): the multiple
  \<open>n * 2^k\<close> of \<open>2^k\<close> nearest to \<open>q\<close>, where \<open>k\<close> leaves 53 bits to the value
  and is at least \<open>-1074\<close>, and an infinity when the rounded value reaches \<open>2^1024\<close>.
  As \<open>n\<close> is at most \<open>2^53\<close>, that is when \<open>k\<close> is at least 971 and
  \<open>n * 2^(k - 971)\<close> reaches \<open>2^53\<close>.
\<close>

definition round_double :: "rat \<Rightarrow> jsnum" where
  "round_double q =
     (if q = 0 then Fin 0
      else
        let m = \<bar>q\<bar>;
            k = max (ilog2 m - 52) (- 1074);
            n = round_half_even (m / pow2 k);
            overflow = (if k < 971 then False else 2 ^ 53 \<le> n * 2 ^ nat (k - 971))
        in if overflow then (if 0 < q then PInf else NInf)
           else Fin ((if 0 < q then 1 else - 1) * of_int n * pow2 k))"

text \<open>The double that a number stands for.\<close>

fun as_double :: "jsnum \<Rightarrow> jsnum" where
  "as_double (Fin q) = round_double q"
| "as_double n = n"

definition isNaN :: "jsnum \<Rightarrow> bool" where
  "isNaN n = (n = NaN)"

fun isFinite :: "jsnum \<Rightarrow> bool" where
  "isFinite (Fin q) = True"
| "isFinite _ = False"

fun js_sign :: "jsnum \<Rightarrow> int" where
  "js_sign NaN = 0"
| "js_sign PInf = 1"
| "js_sign NInf = - 1"
| "js_sign (Fin q) = (if q = 0 then 0 else if 0 < q then 1 else - 1)"

text \<open>
  The operator \<open>*\<close>: the product of two finite doubles is the double nearest to
  their product; an infinity times zero is \<open>NaN\<close>.
\<close>

definition js_mul :: "jsnum \<Rightarrow> jsnum \<Rightarrow> jsnum" where
  "js_mul a b =
     (case (as_double a, as_double b) of
        (Fin x, Fin y) \<Rightarrow> round_double (x * y)
      | (a', b') \<Rightarrow>
          if isNaN a' \<or> isNaN b' then NaN
          else if js_sign a' * js_sign b' = 0 then NaN
          else if 0 < js_sign a' * js_sign b' then PInf
          else NInf)"

text \<open>The operator \<open>-\<close>: the difference of two infinities of one sign is \<open>NaN\<close>.\<close>

definition js_sub :: "jsnum \<Rightarrow> jsnum \<Rightarrow> jsnum" where
  "js_sub a b =
     (case (as_double a, as_double b) of
        (Fin x, Fin y) \<Rightarrow> round_double (x - y)
      | (a', b') \<Rightarrow>
          if isNaN a' \<or> isNaN b' then NaN
          else if isFinite b' then a'
          else if isFinite a' then (if b' = PInf then NInf else PInf)
          else if a' = b' then NaN
          else a')"

text \<open>
  The operator \<open>/\<close>: \<open>0 / 0\<close> and the quotient of two infinities are \<open>NaN\<close>, another
  number over zero is an infinity, and a finite number over an infinity is zero.
\<close>

definition js_div :: "jsnum \<Rightarrow> jsnum \<Rightarrow> jsnum" where
  "js_div a b =
     (case (as_double a, as_double b) of
        (Fin x, Fin y) \<Rightarrow>
          if y = 0 then (if x = 0 then NaN else if 0 < x then PInf else NInf)
          else round_double (x / y)
      | (a', b') \<Rightarrow>
          if isNaN a' \<or> isNaN b' then NaN
          else if isFinite a' then Fin 0
          else if \<not> isFinite b' then NaN
          else if 0 \<le> js_sign a' * js_sign b' then a'
          else (if a' = PInf then NInf else PInf))"

text \<open>The operator \<open><=\<close>: false as soon as one side is \<open>NaN\<close>.\<close>

fun js_le :: "jsnum \<Rightarrow> jsnum \<Rightarrow> bool" where
  "js_le NaN _ = False"
| "js_le _ NaN = False"
| "js_le NInf _ = True"
| "js_le _ PInf = True"
| "js_le PInf _ = False"
| "js_le _ NInf = False"
| "js_le (Fin a) (Fin b) = (a \<le> b)"

definition js_lt :: "jsnum \<Rightarrow> jsnum \<Rightarrow> bool" where
  "js_lt a b = (js_le a b \<and> a \<noteq> b)"

text \<open>\<open>Math.max\<close> and \<open>Math.min\<close> of two arguments.\<close>

definition Math_max :: "jsnum \<Rightarrow> jsnum \<Rightarrow> jsnum" where
  "Math_max a b = (if isNaN a \<or> isNaN b then NaN else if js_le a b then b else a)"

definition Math_min :: "jsnum \<Rightarrow> jsnum \<Rightarrow> jsnum" where
  "Math_min a b = (if isNaN a \<or> isNaN b then NaN else if js_le a b then a else b)"

section \<open>Utils\<close>

definition clamp01 :: "jsnum \<Rightarrow> jsnum" where
  "clamp01 n = Math_min (Fin 1) (Math_max (Fin 0) n)"

text \<open>
  A score cell has the type \<open>number | ""\<close>; the optional parameter adds
  \<open>undefined\<close>, which is \<open>None\<close>.
\<close>

datatype score = Blank | Score jsnum

text \<open>\<open>Number(v)\<close> at that type: the empty string converts to 0.\<close>

fun Number_of :: "score \<Rightarrow> jsnum" where
  "Number_of Blank = Fin 0"
| "Number_of (Score n) = n"

definition computeR :: "score option \<Rightarrow> score option \<Rightarrow> jsnum option" where
  "computeR S P =
     (if S = Some Blank \<or> P = Some Blank \<or> S = None \<or> P = None then None
      else
        let s = Number_of (the S); p = Number_of (the P)
        in if isNaN s \<or> isNaN p then None else Some (js_mul s p))"

record Thresholds =
  low :: jsnum
  medium :: jsnum
  high :: jsnum

definition riskBadgeClass :: "jsnum option \<Rightarrow> Thresholds \<Rightarrow> string" where
  "riskBadgeClass val thresholds =
     (case val of
        None \<Rightarrow> ''bg-gray-200 text-gray-800''
      | Some v \<Rightarrow>
          if js_le v (low thresholds) then ''bg-green-200 text-green-900''
          else if js_le v (medium thresholds) then ''bg-amber-200 text-amber-900''
          else ''bg-red-200 text-red-900'')"

text \<open>
  The severity band a badge class stands for: gray is unknown, green is low, amber is
  moderate and red is high.
\<close>

datatype band = BandUnknown | BandLow | BandModerate | BandHigh

definition band_of_class :: "string \<Rightarrow> band option" where
  "band_of_class c =
     (if c = ''bg-gray-200 text-gray-800'' then Some BandUnknown
      else if c = ''bg-green-200 text-green-900'' then Some BandLow
      else if c = ''bg-amber-200 text-amber-900'' then Some BandModerate
      else if c = ''bg-red-200 text-red-900'' then Some BandHigh
      else None)"

section \<open>Strings\<close>

text \<open>
  A string is a list of bytes (UTF-8). The code never looks inside a character other
  than the double quote, which is one byte.
\<close>

definition dquote :: char where
  "dquote = CHR 0x22"

definition newline :: char where
  "newline = CHR 0x0A"

text \<open>\<open>xs.join(sep)\<close> on an array of strings.\<close>

fun join :: "string \<Rightarrow> string list \<Rightarrow> string" where
  "join sep [] = []"
| "join sep [x] = x"
| "join sep (x # y # ys) = x @ sep @ join sep (y # ys)"

text \<open>\<open>s.replaceAll(c, rep)\<close> for a pattern \<open>c\<close> of one character.\<close>

definition replaceAll :: "char \<Rightarrow> string \<Rightarrow> string \<Rightarrow> string" where
  "replaceAll c rep s = concat (map (\<lambda>d. if d = c then rep else [d]) s)"

definition digit_char :: "nat \<Rightarrow> char" where
  "digit_char d = char_of (48 + d)"

fun digits_of :: "nat \<Rightarrow> string" where
  "digits_of n = (if n < 10 then [digit_char n] else digits_of (n div 10) @ [digit_char (n mod 10)])"

text \<open>
  \<open>n.toFixed(2)\<close>: for the double \<open>q\<close> that \<open>n\<close> stands for, the integer \<open>k\<close>
  nearest to \<open>100 * |q|\<close> (the larger one on a tie), written with two decimals. The
  code applies it to results of \<open>clamp01\<close> only, far below the bound \<open>10^21\<close> where
  JavaScript switches to the exponent notation, which is not modelled.
\<close>

definition toFixed2 :: "jsnum \<Rightarrow> string" where
  "toFixed2 n =
     (case as_double n of
        NaN \<Rightarrow> ''NaN''
      | PInf \<Rightarrow> ''Infinity''
      | NInf \<Rightarrow> ''-Infinity''
      | Fin q \<Rightarrow>
          (let k = nat \<lfloor>\<bar>q\<bar> * 100 + 1 / 2\<rfloor>
           in (if q < 0 then ''-'' else '''') @ digits_of (k div 100) @ ''.'' @
              [digit_char (k mod 100 div 10), digit_char (k mod 10)]))"

text \<open>
  \<open>String(n)\<close> for a number. The digits of a finite number are the shortest ones that
  read back as the same double; this formatting of the finite doubles is the
  parameter \<open>fmt\<close>.
\<close>

definition String_num :: "(rat \<Rightarrow> string) \<Rightarrow> jsnum \<Rightarrow> string" where
  "String_num fmt n =
     (case as_double n of
        NaN \<Rightarrow> ''NaN''
      | PInf \<Rightarrow> ''Infinity''
      | NInf \<Rightarrow> ''-Infinity''
      | Fin q \<Rightarrow> fmt q)"

text \<open>What \<open>String(n)\<close> writes for an integer below \<open>10^21\<close>.\<close>

definition String_int :: "rat \<Rightarrow> string" where
  "String_int q = (if q < 0 then ''-'' else '''') @ digits_of (nat \<lfloor>\<bar>q\<bar>\<rfloor>)"

section \<open>Types\<close>

datatype mode = SP | EOA

record Scoring =
  mode :: mode
  scale :: jsnum
  riskFormula :: string
  thresholds :: Thresholds

record Settings =
  scoring :: Scoring

record ImageInfo =
  dataUrl :: "string option"
  naturalWidth :: "jsnum option"
  naturalHeight :: "jsnum option"
  displayHeight :: jsnum
  displayWidth :: "jsnum option"

text \<open>
  An optional property is an \<open>option\<close>: \<open>None\<close> stands both for a property that is
  absent and for one that holds \<open>undefined\<close>, which no read of the code tells apart.
  The fields of a label carry the prefix \<open>lb_\<close>, those of a row \<open>r_\<close> and those of the
  project \<open>p_\<close>, after the variables the code reads them from.
\<close>

record LabelInstance =
  lb_id :: string
  lb_type :: string
  lb_x :: "jsnum option"
  lb_y :: "jsnum option"
  lb_note :: "string option"

datatype status = A_evaluer | En_cours | Reduit | Accepte

record Row =
  r_id :: string
  r_labelId :: "string option"
  r_danger :: string
  r_position :: "string option"
  r_scenario :: "string option"
  r_S :: "score option"
  r_P :: "score option"
  r_R :: "jsnum option"
  r_measures :: "string option"
  r_Sr :: "score option"
  r_Pr :: "score option"
  r_Rr :: "jsnum option"
  r_comments :: "string option"
  r_status :: "status option"
  r_owner :: "string option"
  r_dueDate :: "string option"

record Meta =
  title :: string
  createdAt :: string

record ProjectState =
  p_schemaVersion :: jsnum
  p_meta :: Meta
  p_settings :: Settings
  p_image :: ImageInfo
  p_labels :: "LabelInstance list"
  p_rows :: "Row list"

section \<open>Tabular export\<close>

text \<open>A cell of the export before it is written: a string or a number.\<close>

datatype cell = CStr string | CNum jsnum

text \<open>
  \<open>v ?? ""\<close> at the types \<open>string | undefined\<close>, \<open>number | "" | undefined\<close> and
  \<open>number | undefined\<close>.
\<close>

definition str_cell :: "string option \<Rightarrow> cell" where
  "str_cell v = (case v of None \<Rightarrow> CStr '''' | Some s \<Rightarrow> CStr s)"

definition score_cell :: "score option \<Rightarrow> cell" where
  "score_cell v = (case v of None \<Rightarrow> CStr '''' | Some Blank \<Rightarrow> CStr '''' | Some (Score n) \<Rightarrow> CNum n)"

definition num_cell :: "jsnum option \<Rightarrow> cell" where
  "num_cell v = (case v of None \<Rightarrow> CStr '''' | Some n \<Rightarrow> CNum n)"

definition csv_cell :: "(rat \<Rightarrow> string) \<Rightarrow> cell \<Rightarrow> string" where
  "csv_cell fmt c =
     (case c of
        CStr s \<Rightarrow> [dquote] @ replaceAll dquote [dquote, dquote] s @ [dquote]
      | CNum n \<Rightarrow> String_num fmt n)"

definition csv_headers :: "string list" where
  "csv_headers =
     [''ID'', ''Danger'', ''Sc'' @ [CHR 0xC3, CHR 0xA9] @ ''nario'', ''S'', ''P'', ''R'',
      ''Mesures'', ''Sr'', ''Pr'', ''Rr'', ''Commentaires'']"

definition row_cells :: "Row \<Rightarrow> cell list" where
  "row_cells r =
     [CStr (r_id r),
      CStr (r_danger r),
      str_cell (r_scenario r),
      score_cell (r_S r),
      score_cell (r_P r),
      num_cell (r_R r),
      str_cell (r_measures r),
      score_cell (r_Sr r),
      score_cell (r_Pr r),
      num_cell (r_Rr r),
      str_cell (r_comments r)]"

definition toCsv :: "(rat \<Rightarrow> string) \<Rightarrow> Row list \<Rightarrow> string" where
  "toCsv fmt rs =
     (let lines = map (\<lambda>r. join '','' (map (csv_cell fmt) (row_cells r))) rs
      in join [newline] (join '','' csv_headers # lines))"

definition enrichRowComputed :: "Row \<Rightarrow> Row" where
  "enrichRowComputed row =
     (let R = computeR (r_S row) (r_P row);
          Rr = computeR (r_Sr row) (r_Pr row)
      in row\<lparr>r_R := R, r_Rr := Rr\<rparr>)"

section \<open>Values of the interchange format\<close>

text \<open>
  A value as \<open>JSON.parse\<close> returns it, and as a running program holds it: \<open>null\<close>, a
  boolean, a number, a string, an array or an object with its properties in order. An
  absent property is the \<open>undefined\<close> of a property read.
\<close>

datatype jsval =
    JNull
  | JBool bool
  | JNum jsnum
  | JStr string
  | JArr "jsval list"
  | JObj "(string \<times> jsval) list"

type_synonym props = "(string \<times> jsval) list"

text \<open>
  The text that \<open>JSON.stringify\<close> writes is not modelled character by character. What
  it keeps of a value is: \<open>json_of v\<close> is the value that \<open>JSON.parse\<close> returns for the text
  \<open>JSON.stringify(v, null, 2)\<close>. A number that is not finite is written as \<open>null\<close>,
  a finite one with the digits that read back as the same double; everything else
  is written as it is.
\<close>

primrec json_of :: "jsval \<Rightarrow> jsval" where
  "json_of JNull = JNull"
| "json_of (JBool b) = JBool b"
| "json_of (JNum n) = (case as_double n of Fin q \<Rightarrow> JNum (Fin q) | _ \<Rightarrow> JNull)"
| "json_of (JStr s) = JStr s"
| "json_of (JArr vs) = JArr (map json_of vs)"
| "json_of (JObj kvs) = JObj (map (map_prod id json_of) kvs)"

text \<open>\<open>!v\<close> is \<open>\<not> truthy v\<close>.\<close>

fun truthy :: "jsval \<Rightarrow> bool" where
  "truthy JNull = False"
| "truthy (JBool b) = b"
| "truthy (JNum n) = (as_double n \<noteq> NaN \<and> as_double n \<noteq> Fin 0)"
| "truthy (JStr s) = (s \<noteq> [])"
| "truthy (JArr vs) = True"
| "truthy (JObj kvs) = True"

fun typeof :: "jsval \<Rightarrow> string" where
  "typeof JNull = ''object''"
| "typeof (JBool b) = ''boolean''"
| "typeof (JNum n) = ''number''"
| "typeof (JStr s) = ''string''"
| "typeof (JArr vs) = ''object''"
| "typeof (JObj kvs) = ''object''"

text \<open>The properties of an array or of a string that carry an index.\<close>

definition indexed :: "'a list \<Rightarrow> (string \<times> 'a) list" where
  "indexed xs = zip (map digits_of [0..<length xs]) xs"

text \<open>
  \<open>v.k\<close> for a value that is neither \<open>null\<close> nor \<open>undefined\<close>: an own property of
  \<open>v\<close>, \<open>None\<close> for \<open>undefined\<close>. Properties inherited from a prototype are not
  modelled; the code reads none.
\<close>

fun get_prop :: "jsval \<Rightarrow> string \<Rightarrow> jsval option" where
  "get_prop (JObj kvs) k = map_of kvs k"
| "get_prop (JArr vs) k =
     (if k = ''length'' then Some (JNum (Fin (of_nat (length vs)))) else map_of (indexed vs) k)"
| "get_prop (JStr s) k =
     (if k = ''length'' then Some (JNum (Fin (of_nat (length s))))
      else map_of (indexed (map (\<lambda>c. JStr [c]) s)) k)"
| "get_prop _ k = None"

text \<open>\<open>a ?? b\<close> and \<open>a || b\<close>, where \<open>a\<close> is a property read.\<close>

definition nullish :: "jsval option \<Rightarrow> jsval \<Rightarrow> jsval" where
  "nullish a b = (case a of None \<Rightarrow> b | Some JNull \<Rightarrow> b | Some v \<Rightarrow> v)"

definition or_else :: "jsval option \<Rightarrow> jsval \<Rightarrow> jsval" where
  "or_else a b = (case a of None \<Rightarrow> b | Some v \<Rightarrow> if truthy v then v else b)"

text \<open>The own enumerable properties that \<open>{...v}\<close> copies.\<close>

fun spread :: "jsval \<Rightarrow> props" where
  "spread (JObj kvs) = kvs"
| "spread (JArr vs) = indexed vs"
| "spread (JStr s) = indexed (map (\<lambda>c. JStr [c]) s)"
| "spread _ = []"

text \<open>
  \<open>{...a, ...b}\<close>: the properties of \<open>b\<close> are written over those of \<open>a\<close>, a new key
  going to the end.
\<close>

definition assign :: "props \<Rightarrow> props \<Rightarrow> props" where
  "assign a b = fold (\<lambda>(k, v). AList.update k v) b a"

text \<open>\<open>Array.isArray(a) ? a : []\<close>, where \<open>a\<close> is a property read.\<close>

definition array_or_empty :: "jsval option \<Rightarrow> jsval" where
  "array_or_empty a = (case a of Some (JArr vs) \<Rightarrow> JArr vs | _ \<Rightarrow> JArr [])"

section \<open>The document as a value\<close>

text \<open>
  The state of the program is typed, and the value it is at run time is an object.
  \<open>value_of_X x\<close> is that object for a typed \<open>x\<close>: a property for every field, none for
  an optional field that is \<open>None\<close>. The order of the properties is fixed here; no
  function of the code depends on it.
\<close>

definition obj_of :: "(string \<times> jsval option) list \<Rightarrow> props" where
  "obj_of kvs = concat (map (\<lambda>(k, v). case v of None \<Rightarrow> [] | Some x \<Rightarrow> [(k, x)]) kvs)"

definition value_of_score :: "score \<Rightarrow> jsval" where
  "value_of_score s = (case s of Blank \<Rightarrow> JStr '''' | Score n \<Rightarrow> JNum n)"

definition status_text :: "status \<Rightarrow> string" where
  "status_text s =
     (case s of
        A_evaluer \<Rightarrow> [CHR 0xC3, CHR 0x80] @ '' '' @ [CHR 0xC3, CHR 0xA9] @ ''valuer''
      | En_cours \<Rightarrow> ''En cours''
      | Reduit \<Rightarrow> ''R'' @ [CHR 0xC3, CHR 0xA9] @ ''duit''
      | Accepte \<Rightarrow> ''Accept'' @ [CHR 0xC3, CHR 0xA9])"

definition mode_text :: "mode \<Rightarrow> string" where
  "mode_text m = (case m of SP \<Rightarrow> ''SP'' | EOA \<Rightarrow> ''EOA'')"

definition value_of_Thresholds :: "Thresholds \<Rightarrow> jsval" where
  "value_of_Thresholds t =
     JObj [(''low'', JNum (low t)), (''medium'', JNum (medium t)), (''high'', JNum (high t))]"

definition value_of_Scoring :: "Scoring \<Rightarrow> jsval" where
  "value_of_Scoring s =
     JObj [(''mode'', JStr (mode_text (mode s))),
           (''scale'', JNum (scale s)),
           (''riskFormula'', JStr (riskFormula s)),
           (''thresholds'', value_of_Thresholds (thresholds s))]"

definition value_of_Settings :: "Settings \<Rightarrow> jsval" where
  "value_of_Settings s = JObj [(''scoring'', value_of_Scoring (scoring s))]"

definition value_of_Meta :: "Meta \<Rightarrow> jsval" where
  "value_of_Meta m = JObj [(''title'', JStr (title m)), (''createdAt'', JStr (createdAt m))]"

definition value_of_ImageInfo :: "ImageInfo \<Rightarrow> jsval" where
  "value_of_ImageInfo i =
     JObj (obj_of
       [(''displayHeight'', Some (JNum (displayHeight i))),
        (''dataUrl'', map_option JStr (dataUrl i)),
        (''displayWidth'', map_option JNum (displayWidth i)),
        (''naturalWidth'', map_option JNum (naturalWidth i)),
        (''naturalHeight'', map_option JNum (naturalHeight i))])"

definition value_of_LabelInstance :: "LabelInstance \<Rightarrow> jsval" where
  "value_of_LabelInstance lb =
     JObj (obj_of
       [(''id'', Some (JStr (lb_id lb))),
        (''type'', Some (JStr (lb_type lb))),
        (''x'', map_option JNum (lb_x lb)),
        (''y'', map_option JNum (lb_y lb)),
        (''note'', map_option JStr (lb_note lb))])"

definition value_of_Row :: "Row \<Rightarrow> jsval" where
  "value_of_Row r =
     JObj (obj_of
       [(''id'', Some (JStr (r_id r))),
        (''labelId'', map_option JStr (r_labelId r)),
        (''danger'', Some (JStr (r_danger r))),
        (''position'', map_option JStr (r_position r)),
        (''scenario'', map_option JStr (r_scenario r)),
        (''S'', map_option value_of_score (r_S r)),
        (''P'', map_option value_of_score (r_P r)),
        (''R'', map_option JNum (r_R r)),
        (''measures'', map_option JStr (r_measures r)),
        (''Sr'', map_option value_of_score (r_Sr r)),
        (''Pr'', map_option value_of_score (r_Pr r)),
        (''Rr'', map_option JNum (r_Rr r)),
        (''comments'', map_option JStr (r_comments r)),
        (''status'', map_option (JStr \<circ> status_text) (r_status r)),
        (''owner'', map_option JStr (r_owner r)),
        (''dueDate'', map_option JStr (r_dueDate r))])"

definition value_of_ProjectState :: "ProjectState \<Rightarrow> jsval" where
  "value_of_ProjectState p =
     JObj [(''schemaVersion'', JNum (p_schemaVersion p)),
           (''meta'', value_of_Meta (p_meta p)),
           (''settings'', value_of_Settings (p_settings p)),
           (''image'', value_of_ImageInfo (p_image p)),
           (''labels'', JArr (map value_of_LabelInstance (p_labels p))),
           (''rows'', JArr (map value_of_Row (p_rows p)))]"

text \<open>
  The other direction is the unchecked step of the code: a value read from a file is
  stored in the typed state as it is. \<open>as_X v\<close> is the typed \<open>x\<close> that \<open>v\<close> is, and
  \<open>None\<close> when \<open>v\<close> is not a value of the type \<open>X\<close> (a property of another type, or a
  property the type does not have): the code then runs on with a state that the types
  do not describe, and this development says nothing about it.
\<close>

definition keys_in :: "props \<Rightarrow> string list \<Rightarrow> bool" where
  "keys_in kvs ks = (set (map fst kvs) \<subseteq> set ks)"

definition req_str :: "jsval option \<Rightarrow> string option" where
  "req_str v = (case v of Some (JStr s) \<Rightarrow> Some s | _ \<Rightarrow> None)"

definition req_num :: "jsval option \<Rightarrow> jsnum option" where
  "req_num v = (case v of Some (JNum n) \<Rightarrow> Some n | _ \<Rightarrow> None)"

definition opt_str :: "jsval option \<Rightarrow> string option option" where
  "opt_str v = (case v of None \<Rightarrow> Some None | Some (JStr s) \<Rightarrow> Some (Some s) | _ \<Rightarrow> None)"

definition opt_num :: "jsval option \<Rightarrow> jsnum option option" where
  "opt_num v = (case v of None \<Rightarrow> Some None | Some (JNum n) \<Rightarrow> Some (Some n) | _ \<Rightarrow> None)"

definition opt_score :: "jsval option \<Rightarrow> score option option" where
  "opt_score v =
     (case v of
        None \<Rightarrow> Some None
      | Some (JNum n) \<Rightarrow> Some (Some (Score n))
      | Some (JStr s) \<Rightarrow> if s = [] then Some (Some Blank) else None
      | _ \<Rightarrow> None)"

definition as_status :: "string \<Rightarrow> status option" where
  "as_status s =
     (if s = status_text A_evaluer then Some A_evaluer
      else if s = status_text En_cours then Some En_cours
      else if s = status_text Reduit then Some Reduit
      else if s = status_text Accepte then Some Accepte
      else None)"

definition opt_status :: "jsval option \<Rightarrow> status option option" where
  "opt_status v =
     (case v of
        None \<Rightarrow> Some None
      | Some (JStr s) \<Rightarrow> map_option Some (as_status s)
      | _ \<Rightarrow> None)"

definition as_mode :: "jsval option \<Rightarrow> mode option" where
  "as_mode v =
     (case v of
        Some (JStr s) \<Rightarrow> if s = ''SP'' then Some SP else if s = ''EOA'' then Some EOA else None
      | _ \<Rightarrow> None)"

fun as_Thresholds :: "jsval \<Rightarrow> Thresholds option" where
  "as_Thresholds (JObj kvs) =
     (if keys_in kvs [''low'', ''medium'', ''high''] then
        do {
          l \<leftarrow> req_num (map_of kvs ''low'');
          m \<leftarrow> req_num (map_of kvs ''medium'');
          h \<leftarrow> req_num (map_of kvs ''high'');
          Some \<lparr>low = l, medium = m, high = h\<rparr>
        }
      else None)"
| "as_Thresholds _ = None"

fun as_Scoring :: "jsval \<Rightarrow> Scoring option" where
  "as_Scoring (JObj kvs) =
     (if keys_in kvs [''mode'', ''scale'', ''riskFormula'', ''thresholds''] then
        do {
          m \<leftarrow> as_mode (map_of kvs ''mode'');
          s \<leftarrow> req_num (map_of kvs ''scale'');
          f \<leftarrow> req_str (map_of kvs ''riskFormula'');
          t \<leftarrow> Option.bind (map_of kvs ''thresholds'') as_Thresholds;
          Some \<lparr>mode = m, scale = s, riskFormula = f, thresholds = t\<rparr>
        }
      else None)"
| "as_Scoring _ = None"

fun as_Settings :: "jsval \<Rightarrow> Settings option" where
  "as_Settings (JObj kvs) =
     (if keys_in kvs [''scoring''] then
        do {
          s \<leftarrow> Option.bind (map_of kvs ''scoring'') as_Scoring;
          Some \<lparr>scoring = s\<rparr>
        }
      else None)"
| "as_Settings _ = None"

fun as_Meta :: "jsval \<Rightarrow> Meta option" where
  "as_Meta (JObj kvs) =
     (if keys_in kvs [''title'', ''createdAt''] then
        do {
          t \<leftarrow> req_str (map_of kvs ''title'');
          c \<leftarrow> req_str (map_of kvs ''createdAt'');
          Some \<lparr>title = t, createdAt = c\<rparr>
        }
      else None)"
| "as_Meta _ = None"

fun as_ImageInfo :: "jsval \<Rightarrow> ImageInfo option" where
  "as_ImageInfo (JObj kvs) =
     (if keys_in kvs [''dataUrl'', ''naturalWidth'', ''naturalHeight'', ''displayHeight'',
                      ''displayWidth''] then
        do {
          d \<leftarrow> opt_str (map_of kvs ''dataUrl'');
          nw \<leftarrow> opt_num (map_of kvs ''naturalWidth'');
          nh \<leftarrow> opt_num (map_of kvs ''naturalHeight'');
          dh \<leftarrow> req_num (map_of kvs ''displayHeight'');
          dw \<leftarrow> opt_num (map_of kvs ''displayWidth'');
          Some \<lparr>dataUrl = d, naturalWidth = nw, naturalHeight = nh, displayHeight = dh,
                 displayWidth = dw\<rparr>
        }
      else None)"
| "as_ImageInfo _ = None"

fun as_LabelInstance :: "jsval \<Rightarrow> LabelInstance option" where
  "as_LabelInstance (JObj kvs) =
     (if keys_in kvs [''id'', ''type'', ''x'', ''y'', ''note''] then
        do {
          i \<leftarrow> req_str (map_of kvs ''id'');
          t \<leftarrow> req_str (map_of kvs ''type'');
          x \<leftarrow> opt_num (map_of kvs ''x'');
          y \<leftarrow> opt_num (map_of kvs ''y'');
          n \<leftarrow> opt_str (map_of kvs ''note'');
          Some \<lparr>lb_id = i, lb_type = t, lb_x = x, lb_y = y, lb_note = n\<rparr>
        }
      else None)"
| "as_LabelInstance _ = None"

definition row_keys :: "string list" where
  "row_keys =
     [''id'', ''labelId'', ''danger'', ''position'', ''scenario'', ''S'', ''P'', ''R'',
      ''measures'', ''Sr'', ''Pr'', ''Rr'', ''comments'', ''status'', ''owner'', ''dueDate'']"

fun as_Row :: "jsval \<Rightarrow> Row option" where
  "as_Row (JObj kvs) =
     (if keys_in kvs row_keys then
        do {
          i \<leftarrow> req_str (map_of kvs ''id'');
          l \<leftarrow> opt_str (map_of kvs ''labelId'');
          d \<leftarrow> req_str (map_of kvs ''danger'');
          po \<leftarrow> opt_str (map_of kvs ''position'');
          sc \<leftarrow> opt_str (map_of kvs ''scenario'');
          s \<leftarrow> opt_score (map_of kvs ''S'');
          p \<leftarrow> opt_score (map_of kvs ''P'');
          rr \<leftarrow> opt_num (map_of kvs ''R'');
          m \<leftarrow> opt_str (map_of kvs ''measures'');
          sr \<leftarrow> opt_score (map_of kvs ''Sr'');
          pr \<leftarrow> opt_score (map_of kvs ''Pr'');
          rrr \<leftarrow> opt_num (map_of kvs ''Rr'');
          c \<leftarrow> opt_str (map_of kvs ''comments'');
          st \<leftarrow> opt_status (map_of kvs ''status'');
          ow \<leftarrow> opt_str (map_of kvs ''owner'');
          du \<leftarrow> opt_str (map_of kvs ''dueDate'');
          Some \<lparr>r_id = i, r_labelId = l, r_danger = d, r_position = po, r_scenario = sc,
                 r_S = s, r_P = p, r_R = rr, r_measures = m, r_Sr = sr, r_Pr = pr,
                 r_Rr = rrr, r_comments = c, r_status = st, r_owner = ow, r_dueDate = du\<rparr>
        }
      else None)"
| "as_Row _ = None"

definition as_array :: "(jsval \<Rightarrow> 'a option) \<Rightarrow> jsval \<Rightarrow> 'a list option" where
  "as_array f v = (case v of JArr vs \<Rightarrow> those (map f vs) | _ \<Rightarrow> None)"

fun as_ProjectState :: "jsval \<Rightarrow> ProjectState option" where
  "as_ProjectState (JObj kvs) =
     (if keys_in kvs [''schemaVersion'', ''meta'', ''settings'', ''image'', ''labels'', ''rows''] then
        do {
          v \<leftarrow> req_num (map_of kvs ''schemaVersion'');
          m \<leftarrow> Option.bind (map_of kvs ''meta'') as_Meta;
          s \<leftarrow> Option.bind (map_of kvs ''settings'') as_Settings;
          i \<leftarrow> Option.bind (map_of kvs ''image'') as_ImageInfo;
          ls \<leftarrow> Option.bind (map_of kvs ''labels'') (as_array as_LabelInstance);
          rs \<leftarrow> Option.bind (map_of kvs ''rows'') (as_array as_Row);
          Some \<lparr>p_schemaVersion = v, p_meta = m, p_settings = s, p_image = i, p_labels = ls,
                 p_rows = rs\<rparr>
        }
      else None)"
| "as_ProjectState _ = None"

section \<open>Component\<close>

text \<open>
  The state of the component that the handlers below read and write. A handler is a
  function from the state to the next state; \<open>setProject\<close> with an updater is the
  update of \<open>project\<close>. What a handler takes from its environment is a parameter: the
  clock, the random part of a fresh identifier, the layout of the image, the answer
  to a dialog.
\<close>

record app =
  project :: ProjectState
  selectedLabelId :: "string option"
  selectedRowId :: "string option"
  error :: "string option"

definition default_settings :: Settings where
  "default_settings =
     \<lparr>scoring =
        \<lparr>mode = SP, scale = Fin 5, riskFormula = ''R=S*P'',
         thresholds = \<lparr>low = Fin 5, medium = Fin 12, high = Fin 25\<rparr>\<rparr>\<rparr>"

definition empty_image :: ImageInfo where
  "empty_image =
     \<lparr>dataUrl = None, naturalWidth = None, naturalHeight = None, displayHeight = Fin 650,
      displayWidth = None\<rparr>"

text \<open>The initial state; \<open>now\<close> is \<open>nowIso()\<close>.\<close>

definition initial :: "string \<Rightarrow> app" where
  "initial now =
     \<lparr>project =
        \<lparr>p_schemaVersion = Fin 1,
         p_meta = \<lparr>title = ''Evaluation des Risques machine'', createdAt = now\<rparr>,
         p_settings = default_settings,
         p_image = empty_image,
         p_labels = [],
         p_rows = []\<rparr>,
      selectedLabelId = None, selectedRowId = None, error = None\<rparr>"

text \<open>\<open>uid(p)\<close>; \<open>rnd\<close> is \<open>Math.random().toString(36).slice(2, 9)\<close>.\<close>

definition uid :: "string \<Rightarrow> string \<Rightarrow> string" where
  "uid p rnd = p @ ''_'' @ rnd"

subsection \<open>Topbar actions\<close>

definition onNew :: "string \<Rightarrow> app \<Rightarrow> app" where
  "onNew now a =
     a\<lparr>project :=
         \<lparr>p_schemaVersion = Fin 1,
          p_meta = \<lparr>title = ''Projet EN12100'', createdAt = now\<rparr>,
          p_settings = p_settings (project a),
          p_image = empty_image,
          p_labels = [],
          p_rows = []\<rparr>,
       selectedLabelId := None, selectedRowId := None, error := None\<rparr>"

text \<open>The name of the downloaded file: \<open>title || "projet"\<close> and the extension.\<close>

definition file_name :: "ProjectState \<Rightarrow> string \<Rightarrow> string" where
  "file_name p ext = (if title (p_meta p) = [] then ''projet'' else title (p_meta p)) @ ext"

text \<open>
  \<open>onSave\<close> downloads a text; the result is the name of the file and the value the
  text stands for.
\<close>

definition onSave :: "app \<Rightarrow> string \<times> jsval" where
  "onSave a = (file_name (project a) ''.json'', json_of (value_of_ProjectState (project a)))"

text \<open>The object that the updater of \<open>onOpen\<close> returns, as a value.\<close>

definition opened :: "ProjectState \<Rightarrow> jsval \<Rightarrow> jsval" where
  "opened prev data =
     JObj [(''schemaVersion'', JNum (Fin 1)),
           (''meta'', nullish (get_prop data ''meta'') (value_of_Meta (p_meta prev))),
           (''settings'', nullish (get_prop data ''settings'') (value_of_Settings (p_settings prev))),
           (''image'',
              JObj (assign [(''displayHeight'', JNum (Fin 650))]
                      (spread (or_else (get_prop data ''image'') (JObj []))))),
           (''labels'', array_or_empty (get_prop data ''labels'')),
           (''rows'', array_or_empty (get_prop data ''rows''))]"

definition open_failed :: string where
  "open_failed = [CHR 0xC3, CHR 0x89] @ ''chec d'' @ [CHR 0x27] @ ''ouverture du projet: ''"

text \<open>
  The body of the \<open>onchange\<close> handler for the chosen file. Its argument is what
  \<open>JSON.parse(text)\<close> does: \<open>Inl m\<close> when reading or parsing throws, with the message
  \<open>m\<close>, and \<open>Inr data\<close> when it returns \<open>data\<close>. The result is \<open>None\<close> when the value
  stored is not a \<open>ProjectState\<close>.
\<close>

definition load :: "app \<Rightarrow> string + jsval \<Rightarrow> app option" where
  "load a parsed =
     (case parsed of
        Inl m \<Rightarrow> Some (a\<lparr>error := Some (open_failed @ m)\<rparr>)
      | Inr data \<Rightarrow>
          if \<not> truthy data \<or> typeof data \<noteq> ''object''
          then Some (a\<lparr>error := Some (open_failed @ ''Fichier invalide'')\<rparr>)
          else
            (case as_ProjectState (opened (project a) data) of
               None \<Rightarrow> None
             | Some p \<Rightarrow> Some (a\<lparr>project := p, error := None\<rparr>)))"

text \<open>\<open>input.files?.[1] ?? input.files?.[0]\<close>\<close>

fun chosen_file :: "'a list \<Rightarrow> 'a option" where
  "chosen_file (f0 # f1 # fs) = Some f1"
| "chosen_file [f0] = Some f0"
| "chosen_file [] = None"

definition onOpen :: "app \<Rightarrow> (string + jsval) list \<Rightarrow> app option" where
  "onOpen a files = (case chosen_file files of None \<Rightarrow> Some a | Some file \<Rightarrow> load a file)"

definition onExportCsv :: "(rat \<Rightarrow> string) \<Rightarrow> app \<Rightarrow> string \<times> string" where
  "onExportCsv fmt a =
     (file_name (project a) ''.csv'', toCsv fmt (map enrichRowComputed (p_rows (project a))))"

text \<open>The change handler of the title field.\<close>

definition onTitleChange :: "string \<Rightarrow> app \<Rightarrow> app" where
  "onTitleChange v a = a\<lparr>project := (project a)\<lparr>p_meta := (p_meta (project a))\<lparr>title := v\<rparr>\<rparr>\<rparr>"

subsection \<open>Image import\<close>

text \<open>
  What \<open>importLocalImage\<close> and \<open>importRemoteImage\<close> do once the file is read;
  \<open>url\<close> is \<open>String(fr.result)\<close>.
\<close>

definition image_loaded :: "string \<Rightarrow> app \<Rightarrow> app" where
  "image_loaded url a =
     a\<lparr>project := (project a)\<lparr>p_image := (p_image (project a))\<lparr>dataUrl := Some url\<rparr>\<rparr>\<rparr>"

text \<open>
  The layout effect; \<open>cw\<close>, \<open>nw\<close> and \<open>nh\<close> are \<open>img.clientWidth\<close>,
  \<open>img.naturalWidth\<close> and \<open>img.naturalHeight\<close>, and \<open>a || b\<close> takes \<open>b\<close> when \<open>a\<close>
  is 0.
\<close>

definition image_update :: "rat \<Rightarrow> rat \<Rightarrow> rat \<Rightarrow> app \<Rightarrow> app" where
  "image_update cw nw nh a =
     (let i = p_image (project a)
      in a\<lparr>project := (project a)
           \<lparr>p_image := i
              \<lparr>displayWidth := Some (Fin (if cw \<noteq> 0 then cw else nw)),
               naturalWidth := (if nw \<noteq> 0 then Some (Fin nw) else naturalWidth i),
               naturalHeight := (if nh \<noteq> 0 then Some (Fin nh) else naturalHeight i)\<rparr>\<rparr>\<rparr>)"

subsection \<open>Labels\<close>

record MouseEvent =
  clientX :: rat
  clientY :: rat

text \<open>A drag event; \<open>dataText\<close> is \<open>e.dataTransfer.getData("text/plain")\<close>.\<close>

record DragEvent = MouseEvent +
  dataText :: string

text \<open>\<open>img.getBoundingClientRect()\<close>\<close>

record DOMRect =
  rect_left :: rat
  rect_top :: rat
  rect_width :: rat
  rect_height :: rat

text \<open>
  \<open>(c - origin) / extent\<close>, the expression both handlers apply to the pointer and
  the box; the three are finite numbers of the layout.
\<close>

definition relative :: "rat \<Rightarrow> rat \<Rightarrow> rat \<Rightarrow> jsnum" where
  "relative c origin extent = js_div (js_sub (Fin c) (Fin origin)) (Fin extent)"

text \<open>
  The row of a new label. The code also computes a \<open>position\<close> text here and does
  not use it.
\<close>

definition createRowForLabel :: "string \<Rightarrow> LabelInstance \<Rightarrow> app \<Rightarrow> app" where
  "createRowForLabel rnd label a =
     (let rowId = uid ''R'' rnd;
          newRow =
            \<lparr>r_id = rowId, r_labelId = Some (lb_id label), r_danger = lb_type label,
             r_position = None, r_scenario = Some '''', r_S = Some Blank, r_P = Some Blank,
             r_R = None, r_measures = Some '''', r_Sr = Some Blank, r_Pr = Some Blank,
             r_Rr = None, r_comments = Some '''', r_status = None, r_owner = None,
             r_dueDate = None\<rparr>
      in a\<lparr>project := (project a)\<lparr>p_rows := p_rows (project a) @ [newRow]\<rparr>,
           selectedRowId := Some rowId\<rparr>)"

text \<open>
  \<open>container\<close> tells whether \<open>canvasRef.current\<close> is set, and \<open>img\<close> is the bounding
  box of \<open>imgRef.current\<close>, \<open>None\<close> when there is no image element.
\<close>

definition handleCanvasDrop ::
  "bool \<Rightarrow> DOMRect option \<Rightarrow> string \<Rightarrow> string \<Rightarrow> 'e DragEvent_scheme \<Rightarrow> app \<Rightarrow> app" where
  "handleCanvasDrop container img rndL rndR e a =
     (let danger = dataText e
      in if danger = [] then a
         else
           (case img of
              None \<Rightarrow> a
            | Some rect \<Rightarrow>
                if \<not> container then a
                else
                  (let x = clamp01 (relative (clientX e) (rect_left rect) (rect_width rect));
                       y = clamp01 (relative (clientY e) (rect_top rect) (rect_height rect));
                       label = \<lparr>lb_id = uid ''L'' rndL, lb_type = danger, lb_x = Some x,
                                lb_y = Some y, lb_note = None\<rparr>;
                       a1 = a\<lparr>project := (project a)\<lparr>p_labels := p_labels (project a) @ [label]\<rparr>,
                              selectedLabelId := Some (lb_id label)\<rparr>
                   in createRowForLabel rndR label a1)))"

definition handleSideDrop :: "string \<Rightarrow> string \<Rightarrow> 'e DragEvent_scheme \<Rightarrow> app \<Rightarrow> app" where
  "handleSideDrop rndL rndR e a =
     (let danger = dataText e
      in if danger = [] then a
         else
           (let label = \<lparr>lb_id = uid ''L'' rndL, lb_type = danger, lb_x = None, lb_y = None,
                         lb_note = None\<rparr>;
                a1 = a\<lparr>project := (project a)\<lparr>p_labels := p_labels (project a) @ [label]\<rparr>,
                       selectedLabelId := Some (lb_id label)\<rparr>
            in createRowForLabel rndR label a1))"

subsection \<open>Label dragging\<close>

definition onStartMoveLabel :: "string \<Rightarrow> app \<Rightarrow> app" where
  "onStartMoveLabel labelId a = a\<lparr>selectedLabelId := Some labelId\<rparr>"

text \<open>
  The listener \<open>onMove\<close> that \<open>onStartMoveLabel\<close> installs when there is an image
  element; \<open>rect\<close> is the box taken when the drag started.
\<close>

definition onMove :: "DOMRect \<Rightarrow> string \<Rightarrow> 'e MouseEvent_scheme \<Rightarrow> app \<Rightarrow> app" where
  "onMove rect labelId ev a =
     (let x = clamp01 (relative (clientX ev) (rect_left rect) (rect_width rect));
          y = clamp01 (relative (clientY ev) (rect_top rect) (rect_height rect));
          p = project a
      in a\<lparr>project := p
           \<lparr>p_labels := map (\<lambda>lb. if lb_id lb = labelId then lb\<lparr>lb_x := Some x, lb_y := Some y\<rparr> else lb)
                          (p_labels p),
            p_rows := map (\<lambda>r. if r_labelId r = Some labelId
                                then r\<lparr>r_position := Some (''x='' @ toFixed2 x @ '',y='' @ toFixed2 y)\<rparr>
                                else r)
                        (p_rows p)\<rparr>\<rparr>)"

text \<open>
  \<open>ok\<close> is the answer to the dialog, which is asked only when a row is linked to the
  label.
\<close>

definition deleteLabel :: "bool \<Rightarrow> string \<Rightarrow> app \<Rightarrow> app" where
  "deleteLabel ok labelId a =
     (let linked = filter (\<lambda>r. r_labelId r = Some labelId) (p_rows (project a));
          removeRows = (if linked \<noteq> [] then ok else False);
          p = project a
      in a\<lparr>project := p
           \<lparr>p_labels := filter (\<lambda>l. lb_id l \<noteq> labelId) (p_labels p),
            p_rows := (if removeRows then filter (\<lambda>r. r_labelId r \<noteq> Some labelId) (p_rows p)
                       else p_rows p)\<rparr>,
           selectedLabelId := None\<rparr>)"

subsection \<open>Table editing\<close>

text \<open>
  A \<open>Partial<Row>\<close>: for every field of a row, \<open>None\<close> when the patch does not have
  the property and \<open>Some v\<close> when it has it with the value \<open>v\<close>.
\<close>

record RowPatch =
  pt_id :: "string option"
  pt_labelId :: "string option option"
  pt_danger :: "string option"
  pt_position :: "string option option"
  pt_scenario :: "string option option"
  pt_S :: "score option option"
  pt_P :: "score option option"
  pt_R :: "jsnum option option"
  pt_measures :: "string option option"
  pt_Sr :: "score option option"
  pt_Pr :: "score option option"
  pt_Rr :: "jsnum option option"
  pt_comments :: "string option option"
  pt_status :: "status option option"
  pt_owner :: "string option option"
  pt_dueDate :: "string option option"

definition patched :: "'a option \<Rightarrow> 'a \<Rightarrow> 'a" where
  "patched new old = (case new of None \<Rightarrow> old | Some v \<Rightarrow> v)"

text \<open>\<open>{...r, ...patch}\<close>\<close>

definition merge_row :: "Row \<Rightarrow> RowPatch \<Rightarrow> Row" where
  "merge_row r patch =
     \<lparr>r_id = patched (pt_id patch) (r_id r),
      r_labelId = patched (pt_labelId patch) (r_labelId r),
      r_danger = patched (pt_danger patch) (r_danger r),
      r_position = patched (pt_position patch) (r_position r),
      r_scenario = patched (pt_scenario patch) (r_scenario r),
      r_S = patched (pt_S patch) (r_S r),
      r_P = patched (pt_P patch) (r_P r),
      r_R = patched (pt_R patch) (r_R r),
      r_measures = patched (pt_measures patch) (r_measures r),
      r_Sr = patched (pt_Sr patch) (r_Sr r),
      r_Pr = patched (pt_Pr patch) (r_Pr r),
      r_Rr = patched (pt_Rr patch) (r_Rr r),
      r_comments = patched (pt_comments patch) (r_comments r),
      r_status = patched (pt_status patch) (r_status r),
      r_owner = patched (pt_owner patch) (r_owner r),
      r_dueDate = patched (pt_dueDate patch) (r_dueDate r)\<rparr>"

definition updateRow :: "string \<Rightarrow> RowPatch \<Rightarrow> app \<Rightarrow> app" where
  "updateRow rowId patch a =
     a\<lparr>project := (project a)
        \<lparr>p_rows := map (\<lambda>r. if r_id r = rowId then merge_row r patch else r) (p_rows (project a))\<rparr>\<rparr>"

text \<open>The patch that has no property.\<close>

definition no_patch :: RowPatch where
  "no_patch =
     \<lparr>pt_id = None, pt_labelId = None, pt_danger = None, pt_position = None,
      pt_scenario = None, pt_S = None, pt_P = None, pt_R = None, pt_measures = None,
      pt_Sr = None, pt_Pr = None, pt_Rr = None, pt_comments = None, pt_status = None,
      pt_owner = None, pt_dueDate = None\<rparr>"

subsection \<open>Settings\<close>

text \<open>
  Modelled from the spec: \<open>updateThresholds(thresholds)\<close>, the "direct settings
  mutator" of the Document Store. The source has no handler that changes the settings;
  this is the update the spec describes, written like the other updaters.
\<close>

definition updateThresholds :: "Thresholds \<Rightarrow> app \<Rightarrow> app" where
  "updateThresholds t a =
     a\<lparr>project := (project a)
        \<lparr>p_settings := (p_settings (project a))
           \<lparr>scoring := (scoring (p_settings (project a)))\<lparr>thresholds := t\<rparr>\<rparr>\<rparr>\<rparr>"

section \<open>Operations of the Document Store\<close>

text \<open>
  The operations the spec names, each with the handler that implements it, and the two
  updates of the image. A run applies a list of operations one after the other.
\<close>

datatype op =
    CreateDocument string
  | PlaceHazardOnImage bool "DOMRect option" string string DragEvent
  | PlaceHazardOffImage string string DragEvent
  | MoveMarker DOMRect string MouseEvent
  | DeleteMarker bool string
  | UpdateRow string RowPatch
  | RenameDocument string
  | UpdateThresholds Thresholds
  | ImageLoaded string
  | ImageUpdate rat rat rat

fun apply_op :: "op \<Rightarrow> app \<Rightarrow> app" where
  "apply_op (CreateDocument now) a = onNew now a"
| "apply_op (PlaceHazardOnImage container img rndL rndR e) a = handleCanvasDrop container img rndL rndR e a"
| "apply_op (PlaceHazardOffImage rndL rndR e) a = handleSideDrop rndL rndR e a"
| "apply_op (MoveMarker rect labelId ev) a = onMove rect labelId ev (onStartMoveLabel labelId a)"
| "apply_op (DeleteMarker ok labelId) a = deleteLabel ok labelId a"
| "apply_op (UpdateRow rowId patch) a = updateRow rowId patch a"
| "apply_op (RenameDocument v) a = onTitleChange v a"
| "apply_op (UpdateThresholds t) a = updateThresholds t a"
| "apply_op (ImageLoaded url) a = image_loaded url a"
| "apply_op (ImageUpdate cw nw nh) a = image_update cw nw nh a"

definition run :: "op list \<Rightarrow> app \<Rightarrow> app" where
  "run ops a = fold apply_op ops a"

text \<open>
  \<open>allowed ok ops a\<close>: every operation of the run satisfies \<open>ok\<close> in the document it
  is applied to.
\<close>

fun allowed :: "(ProjectState \<Rightarrow> op \<Rightarrow> bool) \<Rightarrow> op list \<Rightarrow> app \<Rightarrow> bool" where
  "allowed ok [] a = True"
| "allowed ok (x # xs) a = (ok (project a) x \<and> allowed ok xs (apply_op x a))"

section \<open>Properties\<close>

text \<open>An operand of \<open>computeR\<close> that is empty or not numeric.\<close>

definition operand_missing :: "score option \<Rightarrow> bool" where
  "operand_missing a = (a = None \<or> a = Some Blank \<or> a = Some (Score NaN))"

text \<open>The text fields of the export: between quotes, every quote written twice.\<close>

fun doubled :: "string \<Rightarrow> string" where
  "doubled [] = []"
| "doubled (c # cs) = (if c = dquote then [dquote, dquote] else [c]) @ doubled cs"

definition quoted :: "string \<Rightarrow> string" where
  "quoted s = [dquote] @ doubled s @ [dquote]"

text \<open>
  The line of a row as the export writes it: a text field between quotes, a score or
  a risk that is a number as \<open>String\<close> writes the number, and an empty score or a
  risk that cannot be computed as two quotes with nothing between them.
\<close>

definition text_field :: "string option \<Rightarrow> string" where
  "text_field v = (case v of None \<Rightarrow> quoted [] | Some s \<Rightarrow> quoted s)"

definition score_field :: "(rat \<Rightarrow> string) \<Rightarrow> score option \<Rightarrow> string" where
  "score_field fmt v = (case v of Some (Score n) \<Rightarrow> String_num fmt n | _ \<Rightarrow> quoted [])"

definition risk_field :: "(rat \<Rightarrow> string) \<Rightarrow> jsnum option \<Rightarrow> string" where
  "risk_field fmt v = (case v of Some n \<Rightarrow> String_num fmt n | None \<Rightarrow> quoted [])"

definition export_line :: "(rat \<Rightarrow> string) \<Rightarrow> Row \<Rightarrow> string" where
  "export_line fmt r =
     join '',''
       [quoted (r_id r), quoted (r_danger r), text_field (r_scenario r),
        score_field fmt (r_S r), score_field fmt (r_P r),
        risk_field fmt (computeR (r_S r) (r_P r)),
        text_field (r_measures r),
        score_field fmt (r_Sr r), score_field fmt (r_Pr r),
        risk_field fmt (computeR (r_Sr r) (r_Pr r)),
        text_field (r_comments r)]"

text \<open>A row that is linked to a label is linked to a label of the document.\<close>

definition links_ok :: "ProjectState \<Rightarrow> bool" where
  "links_ok p =
     list_all (\<lambda>r. case r_labelId r of None \<Rightarrow> True | Some l \<Rightarrow> l \<in> set (map lb_id (p_labels p)))
       (p_rows p)"

text \<open>
  The operations that keep the links: a deletion that removes the linked rows whenever
  there are some, and an update of a row that does not write into \<open>labelId\<close> the
  identifier of a label the document does not have.
\<close>

fun keeps_links :: "ProjectState \<Rightarrow> op \<Rightarrow> bool" where
  "keeps_links p (DeleteMarker ok labelId) =
     (ok \<or> filter (\<lambda>r. r_labelId r = Some labelId) (p_rows p) = [])"
| "keeps_links p (UpdateRow rowId patch) =
     (case pt_labelId patch of
        Some (Some l) \<Rightarrow> l \<in> set (map lb_id (p_labels p))
      | _ \<Rightarrow> True)"
| "keeps_links p _ = True"

text \<open>A coordinate is absent or lies in the interval from 0 to 1.\<close>

definition in01 :: "jsnum option \<Rightarrow> bool" where
  "in01 c = (case c of None \<Rightarrow> True | Some n \<Rightarrow> js_le (Fin 0) n \<and> js_le n (Fin 1))"

definition coords_ok :: "ProjectState \<Rightarrow> bool" where
  "coords_ok p = list_all (\<lambda>lb. in01 (lb_x lb) \<and> in01 (lb_y lb)) (p_labels p)"

text \<open>
  The pointer has a position relative to the box: neither quotient is \<open>NaN\<close>, which
  is \<open>0 / 0\<close> and happens for a box without width, or without height, and a pointer
  on its edge.
\<close>

definition mapped :: "DOMRect \<Rightarrow> 'e MouseEvent_scheme \<Rightarrow> bool" where
  "mapped rect ev =
     (\<not> isNaN (relative (clientX ev) (rect_left rect) (rect_width rect)) \<and>
      \<not> isNaN (relative (clientY ev) (rect_top rect) (rect_height rect)))"

fun pointer_mapped :: "ProjectState \<Rightarrow> op \<Rightarrow> bool" where
  "pointer_mapped p (PlaceHazardOnImage container (Some rect) rndL rndR e) = mapped rect e"
| "pointer_mapped p (MoveMarker rect labelId ev) = mapped rect ev"
| "pointer_mapped p _ = True"

text \<open>
  An identifier that no label of the document has, that no row has, and to which
  no row is linked.
\<close>

definition no_label :: "ProjectState \<Rightarrow> string \<Rightarrow> bool" where
  "no_label p i = (i \<notin> set (map lb_id (p_labels p)))"

definition no_row :: "ProjectState \<Rightarrow> string \<Rightarrow> bool" where
  "no_row p i = (i \<notin> set (map r_id (p_rows p)))"

definition no_link :: "ProjectState \<Rightarrow> string \<Rightarrow> bool" where
  "no_link p i = (Some i \<notin> set (map r_labelId (p_rows p)))"

text \<open>A finite double: a finite number that rounding leaves as it is.\<close>

fun is_double :: "jsnum \<Rightarrow> bool" where
  "is_double (Fin q) = (round_double q = Fin q)"
| "is_double _ = False"

text \<open>Every number of the document is a finite double.\<close>

definition fin_opt :: "jsnum option \<Rightarrow> bool" where
  "fin_opt v = (case v of None \<Rightarrow> True | Some n \<Rightarrow> is_double n)"

definition fin_score :: "score option \<Rightarrow> bool" where
  "fin_score v = (case v of Some (Score n) \<Rightarrow> is_double n | _ \<Rightarrow> True)"

definition fin_label :: "LabelInstance \<Rightarrow> bool" where
  "fin_label lb = (fin_opt (lb_x lb) \<and> fin_opt (lb_y lb))"

definition fin_row :: "Row \<Rightarrow> bool" where
  "fin_row r =
     (fin_score (r_S r) \<and> fin_score (r_P r) \<and> fin_opt (r_R r) \<and>
      fin_score (r_Sr r) \<and> fin_score (r_Pr r) \<and> fin_opt (r_Rr r))"

definition fin_settings :: "Settings \<Rightarrow> bool" where
  "fin_settings s =
     (is_double (scale (scoring s)) \<and> is_double (low (thresholds (scoring s))) \<and>
      is_double (medium (thresholds (scoring s))) \<and> is_double (high (thresholds (scoring s))))"

definition fin_image :: "ImageInfo \<Rightarrow> bool" where
  "fin_image i =
     (is_double (displayHeight i) \<and> fin_opt (displayWidth i) \<and> fin_opt (naturalWidth i) \<and>
      fin_opt (naturalHeight i))"

definition finite_numbers :: "ProjectState \<Rightarrow> bool" where
  "finite_numbers p =
     (is_double (p_schemaVersion p) \<and> fin_settings (p_settings p) \<and> fin_image (p_image p) \<and>
      list_all fin_label (p_labels p) \<and> list_all fin_row (p_rows p))"

text \<open>A value that the guard of \<open>load\<close> lets through.\<close>

definition accepted :: "jsval \<Rightarrow> bool" where
  "accepted data = (truthy data \<and> typeof data = ''object'')"

text \<open>A value that is \<open>null\<close>, a boolean, a number or a string.\<close>

fun primitive :: "jsval \<Rightarrow> bool" where
  "primitive (JArr vs) = False"
| "primitive (JObj kvs) = False"
| "primitive _ = True"

section \<open>Example documents\<close>

definition ex_now :: string where
  "ex_now = ''2024-01-01T00:00:00.000Z''"

definition ex_rect :: DOMRect where
  "ex_rect = \<lparr>rect_left = 100, rect_top = 100, rect_width = 100, rect_height = 500\<rparr>"

definition ex_event :: DragEvent where
  "ex_event = \<lparr>clientX = 150, clientY = 225, dataText = ''Bruit''\<rparr>"

text \<open>A hazard dropped on the image at \<open>(0.5, 0.25)\<close>.\<close>

definition ex_placed :: app where
  "ex_placed = handleCanvasDrop True (Some ex_rect) ''abc1234'' ''def5678'' ex_event (initial ex_now)"

text \<open>The same drop on an image box without width, the pointer on its left edge.\<close>

definition ex_degenerate :: app where
  "ex_degenerate =
     handleCanvasDrop True (Some (ex_rect\<lparr>rect_width := 0\<rparr>)) ''abc1234'' ''def5678''
       (ex_event\<lparr>clientX := 100\<rparr>) (initial ex_now)"

text \<open>The row of \<open>ex_placed\<close> with the scores 3 and 4 and a quote in its scenario.\<close>

definition ex_scored :: app where
  "ex_scored =
     updateRow ''R_def5678''
       (no_patch\<lparr>pt_S := Some (Some (Score (Fin 3))), pt_P := Some (Some (Score (Fin 4))),
                 pt_scenario := Some (Some (''a'' @ [dquote] @ ''b''))\<rparr>)
       ex_placed"

definition ex_ops :: "op list" where
  "ex_ops =
     [PlaceHazardOnImage True (Some ex_rect) ''abc1234'' ''def5678'' ex_event,
      PlaceHazardOffImage ''ghi9012'' ''jkl3456'' ex_event,
      MoveMarker ex_rect ''L_abc1234'' \<lparr>clientX = 1000, clientY = 0\<rparr>,
      UpdateRow ''R_def5678'' (no_patch\<lparr>pt_S := Some (Some (Score (Fin 3)))\<rparr>),
      DeleteMarker True ''L_abc1234'',
      RenameDocument ''Presse'',
      UpdateThresholds \<lparr>low = Fin 4, medium = Fin 9, high = Fin 25\<rparr>]"

text \<open>The label of \<open>ex_placed\<close> deleted and its row kept.\<close>

definition ex_dangling :: app where
  "ex_dangling = deleteLabel False ''L_abc1234'' ex_placed"

text \<open>A run that writes into a row the identifier of a label that does not exist.\<close>

definition ex_relink :: "op list" where
  "ex_relink =
     [PlaceHazardOnImage True (Some ex_rect) ''abc1234'' ''def5678'' ex_event,
      UpdateRow ''R_def5678'' (no_patch\<lparr>pt_labelId := Some (Some ''L_ghost'')\<rparr>)]"

text \<open>Files: a label outside the image, an image with its own height, a version tag.\<close>

definition ex_file_label :: jsval where
  "ex_file_label =
     JObj [(''labels'',
            JArr [JObj [(''id'', JStr ''L_1''), (''type'', JStr ''Bruit''),
                        (''x'', JNum (Fin 5)), (''y'', JNum (Fin (- 2)))]])]"

definition ex_file_height :: jsval where
  "ex_file_height = JObj [(''image'', JObj [(''displayHeight'', JNum (Fin 100))])]"

definition ex_file_version :: jsval where
  "ex_file_version = JObj [(''schemaVersion'', JNum (Fin 7))]"

section \<open>Rounding\<close>

lemma round_half_even_of_int: "round_half_even (of_int z) = z"
  by (simp add: round_half_even_def)

lemma bitlen_one: "bitlen 1 = 1"
  by (simp add: bitlen_alt_def)

lemma ilog2_of_int:
  assumes "0 < n"
  shows "ilog2 (of_int n) = bitlen n - 1"
proof -
  have b: "2 ^ nat (bitlen n - 1) \<le> n"
    using bitlen_bounds [OF assms] by simp
  have pos: "0 \<le> bitlen n - 1"
    using assms by (simp add: bitlen_alt_def)
  have "(of_int (2 ^ nat (bitlen n - 1)) :: rat) \<le> of_int n"
    using b by (simp only: of_int_le_iff)
  then have "pow2 (bitlen n - 1) \<le> of_int n"
    using pos by (simp add: pow2_def)
  then show ?thesis
    by (simp add: ilog2_def bitlen_one)
qed

lemma bitlen_le_54:
  assumes "0 < n" "n \<le> 2 ^ 53"
  shows "bitlen n - 1 \<le> 53"
proof -
  have "(2::int) ^ nat (bitlen n - 1) \<le> n"
    using bitlen_bounds [OF assms(1)] by (rule conjunct1)
  then have h: "(2::int) ^ nat (bitlen n - 1) \<le> 2 ^ 53"
    using assms(2) by (rule order_trans)
  have "nat (bitlen n - 1) \<le> 53"
    by (rule power_le_imp_le_exp [OF _ h]) simp
  then show ?thesis by simp
qed

text \<open>An integer of at most 53 bits is a double.\<close>

lemma round_double_pos_int:
  assumes "0 < n" "n \<le> 2 ^ 53"
  shows "round_double (of_int n) = Fin (of_int n)"
proof -
  define d where "d = bitlen n - 1"
  have e: "ilog2 (of_int n) = d"
    unfolding d_def using assms(1) by (rule ilog2_of_int)
  have pos: "0 \<le> d"
    using assms(1) by (simp add: d_def bitlen_alt_def)
  have le: "d \<le> 53"
    unfolding d_def using assms by (rule bitlen_le_54)
  have low: "2 ^ nat d \<le> n"
    unfolding d_def using bitlen_bounds [OF assms(1)] by (rule conjunct1)
  have k: "max (d - 52) (- 1074) = d - 52"
    using pos by simp
  have n0: "(of_int n :: rat) \<noteq> 0" "(0::rat) < of_int n" "\<bar>of_int n :: rat\<bar> = of_int n"
    using assms(1) by simp_all
  show ?thesis
  proof (cases "d \<le> 52")
    case True
    define j where "j = nat (52 - d)"
    have p: "pow2 (d - 52) = 1 / 2 ^ j"
    proof (cases "d = 52")
      case True
      then show ?thesis by (simp add: pow2_def j_def)
    next
      case False
      with \<open>d \<le> 52\<close> have "d - 52 < 0" by simp
      then show ?thesis by (simp add: pow2_def j_def)
    qed
    have "of_int n / pow2 (d - 52) = (of_int (n * 2 ^ j) :: rat)"
      by (simp add: p)
    then have r: "round_half_even (of_int n / pow2 (d - 52)) = n * 2 ^ j"
      by (simp only: round_half_even_of_int)
    have "d - 52 < 971"
      using True by simp
    then show ?thesis
      using assms(1) by (simp add: round_double_def Let_def n0 e k r) (simp add: p)
  next
    case False
    with le have d: "d = 53" by simp
    have "(2::int) ^ 53 \<le> n"
      using low d by simp
    with assms(2) have n: "n = 2 ^ 53" by simp
    have p: "pow2 (d - 52) = 2"
      by (simp add: pow2_def d)
    have "of_int n / pow2 (d - 52) = (of_int (2 ^ 52) :: rat)"
      by (simp add: p n)
    then have r: "round_half_even (of_int n / pow2 (d - 52)) = 2 ^ 52"
      by (simp only: round_half_even_of_int)
    have "d - 52 < 971"
      using d by simp
    then show ?thesis
      using assms(1) by (simp add: round_double_def Let_def n0 e k r) (simp add: p n)
  qed
qed

lemma round_double_neg:
  "round_double (- q) =
     (case round_double q of Fin v \<Rightarrow> Fin (- v) | PInf \<Rightarrow> NInf | NInf \<Rightarrow> PInf | NaN \<Rightarrow> NaN)"
  by (cases "q = 0"; cases "0 < q") (auto simp: round_double_def Let_def)

lemma round_double_of_int:
  assumes "\<bar>n\<bar> \<le> 2 ^ 53"
  shows "round_double (of_int n) = Fin (of_int n)"
proof (cases "n = 0"; cases "0 < n")
  assume "n \<noteq> 0" "\<not> 0 < n"
  then have "0 < - n" "- n \<le> 2 ^ 53" using assms by simp_all
  then have "round_double (of_int (- n)) = Fin (of_int (- n))"
    by (rule round_double_pos_int)
  then have "round_double (- of_int n) = Fin (- of_int n)" by simp
  then show ?thesis
    using round_double_neg [of "- of_int n"] by simp
qed (use assms in \<open>simp_all add: round_double_pos_int\<close>, simp_all add: round_double_def)

lemma js_mul_of_int:
  assumes "\<bar>x\<bar> \<le> 2 ^ 53" "\<bar>y\<bar> \<le> 2 ^ 53" "\<bar>x * y\<bar> \<le> 2 ^ 53"
  shows "js_mul (Fin (of_int x)) (Fin (of_int y)) = Fin (of_int (x * y))"
proof -
  have "round_double (of_int x * of_int y) = Fin (of_int (x * y))"
    using round_double_of_int [OF assms(3)] by simp
  then show ?thesis
    by (simp add: js_mul_def round_double_of_int [OF assms(1)] round_double_of_int [OF assms(2)])
qed

section \<open>Scoring\<close>

lemma js_mul_commute: "js_mul a b = js_mul b a"
  by (cases "as_double a"; cases "as_double b") (simp_all add: js_mul_def isNaN_def mult.commute)

lemma Number_of_NaN: "isNaN (Number_of s) = (s = Score NaN)"
  by (cases s) (simp_all add: isNaN_def)

lemma computeR_commute: "computeR a b = computeR b a"
  by (auto simp: computeR_def Let_def js_mul_commute)

lemma computeR_None_iff: "(computeR a b = None) = (operand_missing a \<or> operand_missing b)"
  by (cases a; cases b) (auto simp: computeR_def operand_missing_def Let_def Number_of_NaN)

lemma computeR_product:
  "\<not> operand_missing a \<Longrightarrow> \<not> operand_missing b \<Longrightarrow>
   computeR a b = Some (js_mul (Number_of (the a)) (Number_of (the b)))"
  by (cases a; cases b) (auto simp: computeR_def operand_missing_def Let_def Number_of_NaN)

lemma computeR_of_int:
  assumes "\<bar>x\<bar> \<le> 2 ^ 53" "\<bar>y\<bar> \<le> 2 ^ 53" "\<bar>x * y\<bar> \<le> 2 ^ 53"
  shows "computeR (Some (Score (Fin (of_int x)))) (Some (Score (Fin (of_int y))))
    = Some (Fin (of_int (x * y)))"
  using js_mul_of_int [OF assms] by (simp add: computeR_def isNaN_def)

lemma computeR_3_4: "computeR (Some (Score (Fin 3))) (Some (Score (Fin 4))) = Some (Fin 12)"
  using computeR_of_int [of 3 4] by simp

text \<open>
  Claim C3, as stated, fails in its last part: the result is the product as \<open>*\<close>
  computes it on doubles, and that is not always the arithmetic product. The
  square of \<open>2^27 + 1\<close> is \<open>2^54 + 2^28 + 1\<close>, and the code returns \<open>2^54 + 2^28\<close>.
\<close>

theorem computeR_rounds_counterexample:
  "computeR (Some (Score (Fin 134217729))) (Some (Score (Fin 134217729)))
     = Some (Fin 18014398777917440) \<and>
   (134217729 :: rat) * 134217729 = 18014398777917441 \<and>
   computeR (Some (Score (Fin 134217729))) (Some (Score (Fin 134217729)))
     \<noteq> Some (Fin (134217729 * 134217729))"
  by code_simp

text \<open>
  Claim C3, amended. For operands of the declared type (a number, the empty string
  or \<open>undefined\<close>), \<open>computeR\<close> is commutative; its result is \<open>undefined\<close> ("not
  computable") exactly when one of the operands is \<open>undefined\<close>, the empty string
  or \<open>NaN\<close>; otherwise it is the product of the two operands as \<open>*\<close> computes it,
  the double nearest to their arithmetic product; and that is the arithmetic
  product itself for integer operands of at most \<open>2^53\<close> in absolute value whose
  product is at most \<open>2^53\<close> in absolute value, as the products of ordinal scores
  are.
\<close>

theorem computeR_commutative_product:
  "computeR a b = computeR b a \<and>
   ((computeR a b = None) = (operand_missing a \<or> operand_missing b)) \<and>
   (\<not> operand_missing a \<and> \<not> operand_missing b \<longrightarrow>
      computeR a b = Some (js_mul (Number_of (the a)) (Number_of (the b)))) \<and>
   (\<bar>x\<bar> \<le> 2 ^ 53 \<and> \<bar>y\<bar> \<le> 2 ^ 53 \<and> \<bar>x * y\<bar> \<le> 2 ^ 53 \<longrightarrow>
      computeR (Some (Score (Fin (of_int x)))) (Some (Score (Fin (of_int y))))
        = Some (Fin (of_int (x * y))))"
proof (intro conjI impI)
  show "computeR a b = computeR b a"
    by (rule computeR_commute)
  show "(computeR a b = None) = (operand_missing a \<or> operand_missing b)"
    by (rule computeR_None_iff)
  show "computeR a b = Some (js_mul (Number_of (the a)) (Number_of (the b)))"
    if "\<not> operand_missing a \<and> \<not> operand_missing b"
    using that by (simp add: computeR_product)
  show "computeR (Some (Score (Fin (of_int x)))) (Some (Score (Fin (of_int y))))
      = Some (Fin (of_int (x * y)))"
    if "\<bar>x\<bar> \<le> 2 ^ 53 \<and> \<bar>y\<bar> \<le> 2 ^ 53 \<and> \<bar>x * y\<bar> \<le> 2 ^ 53"
    using that by (simp add: computeR_of_int)
qed

theorem computeR_commutative_product_witness:
  "\<not> operand_missing (Some (Score (Fin 3))) \<and> \<not> operand_missing (Some (Score (Fin 4))) \<and>
   computeR (Some (Score (Fin 3))) (Some (Score (Fin 4))) = Some (Fin 12) \<and>
   computeR (Some (Score (Fin 4))) (Some (Score (Fin 3))) = Some (Fin 12) \<and>
   operand_missing (Some Blank) \<and>
   computeR (Some Blank) (Some (Score (Fin 4))) = None \<and>
   computeR (Some (Score NaN)) (Some (Score (Fin 4))) = None"
proof -
  note t = computeR_commutative_product [of "Some (Score (Fin 3))" "Some (Score (Fin 4))" 3 4]
  have p: "computeR (Some (Score (Fin 3))) (Some (Score (Fin 4))) = Some (Fin 12)"
    using t [THEN conjunct2, THEN conjunct2, THEN conjunct2] by simp
  have c: "computeR (Some (Score (Fin 4))) (Some (Score (Fin 3))) = Some (Fin 12)"
    by (rule trans [OF t [THEN conjunct1, symmetric] p])
  have m: "operand_missing (Some Blank)" "operand_missing (Some (Score NaN))"
    "\<not> operand_missing (Some (Score (Fin 3)))" "\<not> operand_missing (Some (Score (Fin 4)))"
    by (simp_all add: operand_missing_def)
  have b: "computeR (Some Blank) (Some (Score (Fin 4))) = None"
    using computeR_commutative_product
      [of "Some Blank" "Some (Score (Fin 4))" 0 0, THEN conjunct2, THEN conjunct1] m
    by simp
  have n: "computeR (Some (Score NaN)) (Some (Score (Fin 4))) = None"
    using computeR_commutative_product
      [of "Some (Score NaN)" "Some (Score (Fin 4))" 0 0, THEN conjunct2, THEN conjunct1] m
    by simp
  show ?thesis
    by (intro conjI m p c b n)
qed

lemma js_lt_not_le: "js_lt a b \<Longrightarrow> \<not> js_le b a"
  by (cases a; cases b) (auto simp: js_lt_def)

lemma js_le_trans: "js_le a b \<Longrightarrow> js_le b c \<Longrightarrow> js_le a c"
  by (cases a; cases b; cases c) auto

lemma band_low: "js_le v (low t) \<Longrightarrow> band_of_class (riskBadgeClass (Some v) t) = Some BandLow"
  by (simp add: riskBadgeClass_def band_of_class_def)

lemma band_moderate:
  "js_lt (low t) v \<Longrightarrow> js_le v (medium t) \<Longrightarrow>
   band_of_class (riskBadgeClass (Some v) t) = Some BandModerate"
  by (simp add: riskBadgeClass_def band_of_class_def js_lt_not_le)

lemma band_high:
  "js_lt (low t) v \<Longrightarrow> js_lt (medium t) v \<Longrightarrow>
   band_of_class (riskBadgeClass (Some v) t) = Some BandHigh"
  by (simp add: riskBadgeClass_def band_of_class_def js_lt_not_le)

lemma band_high_ordered:
  assumes "js_le (low t) (medium t)" "js_lt (medium t) v"
  shows "band_of_class (riskBadgeClass (Some v) t) = Some BandHigh"
proof -
  have "\<not> js_le v (medium t)" using assms(2) by (rule js_lt_not_le)
  moreover have "\<not> js_le v (low t)"
  proof
    assume "js_le v (low t)"
    then have "js_le v (medium t)" using assms(1) by (rule js_le_trans)
    with \<open>\<not> js_le v (medium t)\<close> show False by simp
  qed
  ultimately show ?thesis by (simp add: riskBadgeClass_def band_of_class_def)
qed

text \<open>
  Claim C7, as stated, fails when the thresholds are not in order: with \<open>low = 12\<close>
  and \<open>medium = 5\<close> the value 8 is above \<open>medium\<close>, and the badge is the one of the
  low band.
\<close>

theorem riskBadgeClass_misordered_counterexample:
  "js_lt (medium \<lparr>low = Fin 12, medium = Fin 5, high = Fin 25\<rparr>) (Fin 8) \<and>
   band_of_class (riskBadgeClass (Some (Fin 8)) \<lparr>low = Fin 12, medium = Fin 5, high = Fin 25\<rparr>)
     = Some BandLow"
  by (simp add: js_lt_def riskBadgeClass_def band_of_class_def)

text \<open>
  Claim C7, amended. For a risk value \<open>v\<close> and thresholds \<open>t\<close>, the badge is the one of
  the low band if \<open>v \<le> t.low\<close>, of the moderate band if \<open>t.low < v \<le> t.medium\<close>, and
  of the high band if \<open>v\<close> is above both thresholds, which for thresholds in order
  (\<open>t.low \<le> t.medium\<close>) means \<open>v > t.medium\<close>. A value equal to \<open>t.medium\<close> is
  moderate when \<open>t.low < t.medium\<close>.
\<close>

theorem riskBadgeClass_bands:
  "(js_le v (low t) \<longrightarrow> band_of_class (riskBadgeClass (Some v) t) = Some BandLow) \<and>
   (js_lt (low t) v \<and> js_le v (medium t) \<longrightarrow>
      band_of_class (riskBadgeClass (Some v) t) = Some BandModerate) \<and>
   (js_lt (low t) v \<and> js_lt (medium t) v \<longrightarrow>
      band_of_class (riskBadgeClass (Some v) t) = Some BandHigh) \<and>
   (js_le (low t) (medium t) \<and> js_lt (medium t) v \<longrightarrow>
      band_of_class (riskBadgeClass (Some v) t) = Some BandHigh) \<and>
   (js_lt (low t) (medium t) \<longrightarrow>
      band_of_class (riskBadgeClass (Some (medium t)) t) = Some BandModerate)"
proof -
  have "js_lt (low t) (medium t) \<Longrightarrow> js_le (medium t) (medium t)"
    by (cases "low t"; cases "medium t") (auto simp: js_lt_def)
  then show ?thesis
    using band_low band_moderate band_high band_high_ordered by blast
qed

theorem riskBadgeClass_bands_witness:
  "js_lt (low \<lparr>low = Fin 5, medium = Fin 12, high = Fin 25\<rparr>) (Fin 12) \<and>
   js_le (Fin 12) (medium \<lparr>low = Fin 5, medium = Fin 12, high = Fin 25\<rparr>) \<and>
   computeR (Some (Score (Fin 3))) (Some (Score (Fin 4))) = Some (Fin 12) \<and>
   band_of_class (riskBadgeClass (Some (Fin 12)) \<lparr>low = Fin 5, medium = Fin 12, high = Fin 25\<rparr>)
     = Some BandModerate \<and>
   js_le (Fin 5) (low \<lparr>low = Fin 5, medium = Fin 12, high = Fin 25\<rparr>) \<and>
   band_of_class (riskBadgeClass (Some (Fin 5)) \<lparr>low = Fin 5, medium = Fin 12, high = Fin 25\<rparr>)
     = Some BandLow \<and>
   js_lt (medium \<lparr>low = Fin 5, medium = Fin 12, high = Fin 25\<rparr>) (Fin 13) \<and>
   band_of_class (riskBadgeClass (Some (Fin 13)) \<lparr>low = Fin 5, medium = Fin 12, high = Fin 25\<rparr>)
     = Some BandHigh"
  using riskBadgeClass_bands [of "Fin 12" "\<lparr>low = Fin 5, medium = Fin 12, high = Fin 25\<rparr>"]
        riskBadgeClass_bands [of "Fin 5" "\<lparr>low = Fin 5, medium = Fin 12, high = Fin 25\<rparr>"]
        riskBadgeClass_bands [of "Fin 13" "\<lparr>low = Fin 5, medium = Fin 12, high = Fin 25\<rparr>"]
  by (simp add: js_lt_def computeR_3_4)

section \<open>Unknown identifiers\<close>

lemma map_if_absent: "\<forall>x\<in>set xs. \<not> P x \<Longrightarrow> map (\<lambda>x. if P x then f x else x) xs = xs"
  by (induction xs) auto

lemma filter_all: "\<forall>x\<in>set xs. P x \<Longrightarrow> filter P xs = xs"
  by (induction xs) auto

lemma filter_none: "\<forall>x\<in>set xs. \<not> P x \<Longrightarrow> filter P xs = []"
  by (induction xs) auto

lemma no_label_iff: "no_label p i = (\<forall>lb\<in>set (p_labels p). lb_id lb \<noteq> i)"
  by (auto simp: no_label_def)

lemma no_row_iff: "no_row p i = (\<forall>r\<in>set (p_rows p). r_id r \<noteq> i)"
  by (auto simp: no_row_def)

lemma no_link_iff: "no_link p i = (\<forall>r\<in>set (p_rows p). r_labelId r \<noteq> Some i)"
  by (auto simp: no_link_def image_iff)

lemma updateRow_miss:
  assumes "no_row (project a) i"
  shows "updateRow i patch a = a"
proof -
  have r: "\<forall>r\<in>set (p_rows (project a)). \<not> r_id r = i"
    using assms by (simp add: no_row_iff)
  show ?thesis
    by (simp add: updateRow_def map_if_absent [OF r])
qed

lemma onMove_labels:
  assumes "no_label (project a) i"
  shows "p_labels (project (onMove rect i ev a)) = p_labels (project a)"
proof -
  have l: "\<forall>lb\<in>set (p_labels (project a)). \<not> lb_id lb = i"
    using assms by (simp add: no_label_iff)
  show ?thesis
    by (simp add: onMove_def Let_def map_if_absent [OF l])
qed

lemma onMove_miss:
  assumes "no_label (project a) i" "no_link (project a) i"
  shows "project (onMove rect i ev a) = project a"
proof -
  have l: "\<forall>lb\<in>set (p_labels (project a)). \<not> lb_id lb = i"
    using assms(1) by (simp add: no_label_iff)
  have r: "\<forall>r\<in>set (p_rows (project a)). \<not> r_labelId r = Some i"
    using assms(2) by (simp add: no_link_iff)
  show ?thesis
    by (simp add: onMove_def Let_def map_if_absent [OF l] map_if_absent [OF r])
qed

lemma deleteLabel_labels:
  assumes "no_label (project a) i"
  shows "p_labels (project (deleteLabel ok i a)) = p_labels (project a)"
proof -
  have l: "\<forall>lb\<in>set (p_labels (project a)). lb_id lb \<noteq> i"
    using assms by (simp add: no_label_iff)
  show ?thesis
    by (simp add: deleteLabel_def Let_def filter_all [OF l])
qed

lemma deleteLabel_keep:
  assumes "no_label (project a) i"
  shows "project (deleteLabel False i a) = project a"
proof -
  have l: "\<forall>lb\<in>set (p_labels (project a)). lb_id lb \<noteq> i"
    using assms by (simp add: no_label_iff)
  show ?thesis
    by (simp add: deleteLabel_def Let_def filter_all [OF l])
qed

lemma deleteLabel_miss:
  assumes "no_label (project a) i" "no_link (project a) i"
  shows "project (deleteLabel ok i a) = project a"
proof -
  have l: "\<forall>lb\<in>set (p_labels (project a)). lb_id lb \<noteq> i"
    using assms(1) by (simp add: no_label_iff)
  have r: "\<forall>r\<in>set (p_rows (project a)). \<not> r_labelId r = Some i"
    using assms(2) by (simp add: no_link_iff)
  show ?thesis
    by (simp add: deleteLabel_def Let_def filter_all [OF l] filter_none [OF r])
qed

text \<open>
  Claim C9, as stated, fails for the identifier of a marker that was deleted without
  its rows: no marker has it any more, and the rows still hold it as \<open>labelId\<close>.
  Moving by that identifier rewrites the position of those rows, and deleting by it
  with the answer "yes" removes them.
\<close>

theorem dangling_id_counterexample:
  "map lb_id (p_labels (project ex_dangling)) = [] \<and>
   map r_labelId (p_rows (project ex_dangling)) = [Some ''L_abc1234''] \<and>
   map r_position (p_rows (project ex_dangling)) = [None] \<and>
   map r_position
     (p_rows (project (apply_op (MoveMarker ex_rect ''L_abc1234'' \<lparr>clientX = 150, clientY = 150\<rparr>)
        ex_dangling)))
     = [Some ''x=0.50,y=0.10''] \<and>
   p_rows (project (apply_op (DeleteMarker True ''L_abc1234'') ex_dangling)) = []"
  by code_simp

text \<open>
  Claim C9, amended. For every document, \<open>updateRow\<close> with an identifier that no row
  has, and \<open>moveMarker\<close> and \<open>deleteMarker\<close> with an identifier that no marker has and
  to which no row is linked, leave the document as it is. With an identifier that
  no marker has and to which rows are still linked, the markers stay as they are
  and a deletion that keeps the rows changes nothing. The handlers are total
  functions: they have no failing branch.
\<close>

theorem missed_id_no_op:
  "(no_row (project a) i \<longrightarrow> project (apply_op (UpdateRow i patch) a) = project a) \<and>
   (no_label (project a) i \<and> no_link (project a) i \<longrightarrow>
      project (apply_op (MoveMarker rect i ev) a) = project a \<and>
      project (apply_op (DeleteMarker ok i) a) = project a) \<and>
   (no_label (project a) i \<longrightarrow>
      p_labels (project (apply_op (MoveMarker rect i ev) a)) = p_labels (project a) \<and>
      p_labels (project (apply_op (DeleteMarker ok i) a)) = p_labels (project a) \<and>
      project (apply_op (DeleteMarker False i) a) = project a)"
proof (intro conjI impI)
  show "project (apply_op (UpdateRow i patch) a) = project a" if "no_row (project a) i"
    using that by (simp add: updateRow_miss)
next
  assume h: "no_label (project a) i \<and> no_link (project a) i"
  then have "no_label (project (onStartMoveLabel i a)) i" "no_link (project (onStartMoveLabel i a)) i"
    by (simp_all add: onStartMoveLabel_def)
  then have "project (onMove rect i ev (onStartMoveLabel i a)) = project (onStartMoveLabel i a)"
    by (rule onMove_miss)
  then show "project (apply_op (MoveMarker rect i ev) a) = project a"
    by (simp add: onStartMoveLabel_def)
  show "project (apply_op (DeleteMarker ok i) a) = project a"
    using h by (simp add: deleteLabel_miss)
next
  assume h: "no_label (project a) i"
  then have "no_label (project (onStartMoveLabel i a)) i"
    by (simp add: onStartMoveLabel_def)
  then have "p_labels (project (onMove rect i ev (onStartMoveLabel i a)))
      = p_labels (project (onStartMoveLabel i a))"
    by (rule onMove_labels)
  then show "p_labels (project (apply_op (MoveMarker rect i ev) a)) = p_labels (project a)"
    by (simp add: onStartMoveLabel_def)
  show "p_labels (project (apply_op (DeleteMarker ok i) a)) = p_labels (project a)"
    using h by (simp add: deleteLabel_labels)
  show "project (apply_op (DeleteMarker False i) a) = project a"
    using h by (simp add: deleteLabel_keep)
qed

theorem missed_id_no_op_witness:
  "no_row (project ex_placed) ''L_abc1234'' \<and>
   project (apply_op (UpdateRow ''L_abc1234'' (no_patch\<lparr>pt_danger := Some ''Chute''\<rparr>)) ex_placed)
     = project ex_placed \<and>
   no_label (project ex_placed) ''L_zzzzzzz'' \<and> no_link (project ex_placed) ''L_zzzzzzz'' \<and>
   project (apply_op (MoveMarker ex_rect ''L_zzzzzzz'' \<lparr>clientX = 150, clientY = 150\<rparr>) ex_placed)
     = project ex_placed \<and>
   project (apply_op (DeleteMarker True ''L_zzzzzzz'') ex_placed) = project ex_placed \<and>
   no_label (project ex_dangling) ''L_abc1234'' \<and>
   project (apply_op (DeleteMarker False ''L_abc1234'') ex_dangling) = project ex_dangling"
proof -
  have r: "no_row (project ex_placed) ''L_abc1234''"
    by code_simp
  have l: "no_label (project ex_placed) ''L_zzzzzzz''" "no_link (project ex_placed) ''L_zzzzzzz''"
    by code_simp+
  have d: "no_label (project ex_dangling) ''L_abc1234''"
    by code_simp
  note t1 = missed_id_no_op [of ex_placed "''L_abc1234''" "no_patch\<lparr>pt_danger := Some ''Chute''\<rparr>"
      ex_rect "\<lparr>clientX = 150, clientY = 150\<rparr>" True]
  note t2 = missed_id_no_op [of ex_placed "''L_zzzzzzz''" no_patch
      ex_rect "\<lparr>clientX = 150, clientY = 150\<rparr>" True]
  note t3 = missed_id_no_op [of ex_dangling "''L_abc1234''" no_patch
      ex_rect "\<lparr>clientX = 150, clientY = 150\<rparr>" False]
  have u: "project (apply_op (UpdateRow ''L_abc1234'' (no_patch\<lparr>pt_danger := Some ''Chute''\<rparr>)) ex_placed)
     = project ex_placed"
    by (rule t1 [THEN conjunct1, THEN mp, OF r])
  have m: "project (apply_op (MoveMarker ex_rect ''L_zzzzzzz'' \<lparr>clientX = 150, clientY = 150\<rparr>) ex_placed)
       = project ex_placed \<and>
     project (apply_op (DeleteMarker True ''L_zzzzzzz'') ex_placed) = project ex_placed"
    by (rule t2 [THEN conjunct2, THEN conjunct1, THEN mp, OF conjI [OF l]])
  have k: "project (apply_op (DeleteMarker False ''L_abc1234'') ex_dangling) = project ex_dangling"
    using t3 [THEN conjunct2, THEN conjunct2, THEN mp, OF d] by (elim conjE)
  show ?thesis
    by (intro conjI r u l m [THEN conjunct1] m [THEN conjunct2] d k)
qed

section \<open>Objects\<close>

lemma obj_of_Nil: "obj_of [] = []"
  by (simp add: obj_of_def)

lemma obj_of_Cons:
  "obj_of ((k, v) # kvs) = (case v of None \<Rightarrow> [] | Some x \<Rightarrow> [(k, x)]) @ obj_of kvs"
  by (simp add: obj_of_def)

lemma set_obj_of: "set (obj_of kvs) = {(k, x). (k, Some x) \<in> set kvs}"
proof (induction kvs)
  case Nil
  then show ?case by (simp add: obj_of_Nil)
next
  case (Cons kv kvs)
  obtain k' v' where kv: "kv = (k', v')" by (cases kv)
  show ?case
    unfolding kv obj_of_Cons using Cons.IH by (cases v') auto
qed

lemma keys_obj_of: "fst ` set (obj_of kvs) \<subseteq> fst ` set kvs"
  unfolding set_obj_of by force

lemma keys_in_obj_of: "set (map fst kvs) \<subseteq> set ks \<Longrightarrow> keys_in (obj_of kvs) ks"
  using keys_obj_of [of kvs] by (auto simp: keys_in_def)

lemma map_of_obj_of:
  "distinct (map fst kvs) \<Longrightarrow> map_of (obj_of kvs) k = Option.bind (map_of kvs k) (\<lambda>v. v)"
proof (induction kvs)
  case Nil
  then show ?case by (simp add: obj_of_Nil)
next
  case (Cons kv kvs)
  obtain k' v' where kv: "kv = (k', v')" by (cases kv)
  have absent: "map_of kvs k' = None"
    using Cons.prems kv by (simp add: map_of_eq_None_iff)
  show ?case
    using Cons kv absent by (cases v') (auto simp: obj_of_Cons)
qed

lemma distinct_obj_of: "distinct (map fst kvs) \<Longrightarrow> distinct (map fst (obj_of kvs))"
proof (induction kvs)
  case Nil
  then show ?case by (simp add: obj_of_Nil)
next
  case (Cons kv kvs)
  obtain k' v' where kv: "kv = (k', v')" by (cases kv)
  have "k' \<notin> fst ` set (obj_of kvs)"
    using Cons.prems kv keys_obj_of [of kvs] by auto
  then show ?case
    using Cons kv by (cases v') (auto simp: obj_of_Cons)
qed

lemma json_of_obj_of:
  "map (map_prod id json_of) (obj_of kvs) = obj_of (map (map_prod id (map_option json_of)) kvs)"
  by (induction kvs) (auto simp: obj_of_Cons obj_of_Nil split: option.splits)

lemma assign_Cons: "assign a ((k, v) # b) = assign (AList.update k v a) b"
  by (simp add: assign_def)

text \<open>A property of \<open>{...a, ...b}\<close> is the one of \<open>b\<close>, and the one of \<open>a\<close> when \<open>b\<close> has none.\<close>

lemma map_of_assign:
  "distinct (map fst b) \<Longrightarrow>
   map_of (assign a b) k = (case map_of b k of Some v \<Rightarrow> Some v | None \<Rightarrow> map_of a k)"
proof (induction b arbitrary: a)
  case Nil
  then show ?case by (simp add: assign_def)
next
  case (Cons kv b)
  obtain k' v' where kv: "kv = (k', v')" by (cases kv)
  have absent: "map_of b k' = None"
    using Cons.prems kv by (simp add: map_of_eq_None_iff)
  have ih: "map_of (assign (AList.update k' v' a) b) k =
      (case map_of b k of Some v \<Rightarrow> Some v | None \<Rightarrow> map_of (AList.update k' v' a) k)"
    using Cons.IH Cons.prems by simp
  show ?case
  proof (cases "k = k'")
    case True
    then show ?thesis
      unfolding kv assign_Cons ih by (simp add: absent update_conv')
  next
    case False
    then show ?thesis
      unfolding kv assign_Cons ih by (simp add: update_conv' split: option.splits)
  qed
qed

lemma map_of_assign_other:
  "distinct (map fst b) \<Longrightarrow> map_of a k = None \<Longrightarrow> map_of (assign a b) k = map_of b k"
  by (simp add: map_of_assign split: option.splits)

lemma map_of_assign_hit:
  "distinct (map fst b) \<Longrightarrow> map_of b k = Some w \<Longrightarrow> map_of (assign a b) k = Some w"
  by (simp add: map_of_assign)

lemma keys_assign: "fst ` set (assign a b) = fst ` set a \<union> fst ` set b"
proof (induction b arbitrary: a)
  case Nil
  then show ?case by (simp add: assign_def)
next
  case (Cons kv b)
  obtain k' v' where kv: "kv = (k', v')" by (cases kv)
  show ?case
    unfolding kv assign_Cons Cons.IH by (auto simp: dom_update)
qed

section \<open>Loading\<close>

lemma load_accepted:
  assumes "accepted data" and "load a (Inr data) = Some a'"
  shows "as_ProjectState (opened (project a) data) = Some (project a')"
  using assms by (auto simp: load_def accepted_def split: option.splits)

lemma schemaVersion_of_opened:
  "as_ProjectState (opened prev data) = Some p \<Longrightarrow> p_schemaVersion p = Fin 1"
  by (auto simp: opened_def keys_in_def req_num_def split: Option.bind_splits if_splits)

text \<open>
  Claim C10. The document that \<open>load\<close> stores for an accepted value has the
  \<open>schemaVersion\<close> 1, whatever version the value carries: the object that the updater
  builds has the property \<open>schemaVersion: 1\<close>, and so has the typed document.
\<close>

theorem load_schemaVersion:
  "get_prop (opened prev data) ''schemaVersion'' = Some (JNum (Fin 1)) \<and>
   (accepted data \<and> load a (Inr data) = Some a' \<longrightarrow> p_schemaVersion (project a') = Fin 1)"
proof -
  have "get_prop (opened prev data) ''schemaVersion'' = Some (JNum (Fin 1))"
    by (simp add: opened_def)
  moreover have "p_schemaVersion (project a') = Fin 1"
    if "accepted data" "load a (Inr data) = Some a'"
    using load_accepted [OF that] by (rule schemaVersion_of_opened)
  ultimately show ?thesis by blast
qed

theorem load_schemaVersion_witness:
  "get_prop ex_file_version ''schemaVersion'' = Some (JNum (Fin 7)) \<and>
   accepted ex_file_version \<and>
   load ex_placed (Inr ex_file_version) =
     Some (ex_placed\<lparr>project := (project ex_placed)\<lparr>p_labels := [], p_rows := []\<rparr>, error := None\<rparr>) \<and>
   p_schemaVersion
     (project (ex_placed\<lparr>project := (project ex_placed)\<lparr>p_labels := [], p_rows := []\<rparr>, error := None\<rparr>))
     = Fin 1"
proof -
  let ?a' = "ex_placed\<lparr>project := (project ex_placed)\<lparr>p_labels := [], p_rows := []\<rparr>, error := None\<rparr>"
  have v: "get_prop ex_file_version ''schemaVersion'' = Some (JNum (Fin 7))"
    by code_simp
  have a: "accepted ex_file_version"
    by code_simp
  have l: "load ex_placed (Inr ex_file_version) = Some ?a'"
    by code_simp
  from a l load_schemaVersion [of "project ex_placed" ex_file_version ex_placed ?a']
  have "p_schemaVersion (project ?a') = Fin 1"
    by blast
  with v a l show ?thesis by blast
qed

lemma load_primitive:
  "primitive data \<Longrightarrow>
   load a (Inr data) = Some (a\<lparr>error := Some (open_failed @ ''Fichier invalide'')\<rparr>)"
  by (cases data) (simp_all add: load_def)

text \<open>
  Claim C8, as stated, fails for a value that is an array: \<open>typeof\<close> of an array
  is \<open>"object"\<close>, the guard lets it through, and the document is replaced by one
  without labels and rows.
\<close>

theorem load_array_counterexample:
  "load ex_placed (Inr (JArr [])) =
     Some (ex_placed\<lparr>project := (project ex_placed)\<lparr>p_labels := [], p_rows := []\<rparr>, error := None\<rparr>) \<and>
   p_labels (project ex_placed) \<noteq> [] \<and> p_rows (project ex_placed) \<noteq> []"
  by code_simp

text \<open>
  Claim C8, amended. For a value that is \<open>null\<close>, a boolean, a number or a string,
  \<open>load\<close> sets the error message "Fichier invalide" and leaves the document as it is.
\<close>

theorem load_primitive_fails:
  "primitive data \<longrightarrow>
     load a (Inr data) = Some (a\<lparr>error := Some (open_failed @ ''Fichier invalide'')\<rparr>) \<and>
     map_option project (load a (Inr data)) = Some (project a) \<and>
     map_option error (load a (Inr data)) \<noteq> Some None"
proof
  assume "primitive data"
  then have "load a (Inr data) = Some (a\<lparr>error := Some (open_failed @ ''Fichier invalide'')\<rparr>)"
    by (rule load_primitive)
  then show "load a (Inr data) = Some (a\<lparr>error := Some (open_failed @ ''Fichier invalide'')\<rparr>) \<and>
     map_option project (load a (Inr data)) = Some (project a) \<and>
     map_option error (load a (Inr data)) \<noteq> Some None"
    by simp
qed

theorem load_primitive_fails_witness:
  "primitive (JNum (Fin 5)) \<and>
   load ex_placed (Inr (JNum (Fin 5))) =
     Some (ex_placed\<lparr>error := Some (open_failed @ ''Fichier invalide'')\<rparr>) \<and>
   map_option project (load ex_placed (Inr (JNum (Fin 5)))) = Some (project ex_placed)"
  using load_primitive_fails [of "JNum (Fin 5)" ex_placed] by simp

lemma image_of_opened:
  assumes "as_ProjectState (opened prev data) = Some p"
  shows "as_ImageInfo (JObj (assign [(''displayHeight'', JNum (Fin 650))]
            (spread (or_else (get_prop data ''image'') (JObj []))))) = Some (p_image p)"
  using assms
  by (auto simp: opened_def keys_in_def split: Option.bind_splits if_splits
      simp del: as_ImageInfo.simps)

lemma displayHeight_of_image:
  assumes "as_ImageInfo (JObj kvs) = Some i"
  shows "map_of kvs ''displayHeight'' = Some (JNum (displayHeight i))"
  using assms
  by (auto simp: req_num_def split: Option.bind_splits if_splits option.splits jsval.splits)

text \<open>
  Claim C5 does not hold of the code: the properties of the image of the file are
  spread after \<open>displayHeight: 650\<close>, so a \<open>displayHeight\<close> in the file replaces the
  650. For an accepted value whose \<open>image\<close> is an object with a number \<open>h\<close> as
  \<open>displayHeight\<close>, the display height of the loaded document is \<open>h\<close>.
\<close>

theorem load_displayHeight_from_input:
  assumes "accepted data"
    and "get_prop data ''image'' = Some (JObj kvs)"
    and "distinct (map fst kvs)"
    and "map_of kvs ''displayHeight'' = Some (JNum h)"
    and "load a (Inr data) = Some a'"
  shows "displayHeight (p_image (project a')) = h"
proof -
  have p: "as_ProjectState (opened (project a) data) = Some (project a')"
    using assms(1,5) by (rule load_accepted)
  have "or_else (get_prop data ''image'') (JObj []) = JObj kvs"
    by (simp add: assms(2) or_else_def)
  with image_of_opened [OF p]
  have "as_ImageInfo (JObj (assign [(''displayHeight'', JNum (Fin 650))] kvs))
      = Some (p_image (project a'))"
    by simp
  then have "map_of (assign [(''displayHeight'', JNum (Fin 650))] kvs) ''displayHeight''
      = Some (JNum (displayHeight (p_image (project a'))))"
    by (rule displayHeight_of_image)
  moreover have "map_of (assign [(''displayHeight'', JNum (Fin 650))] kvs) ''displayHeight''
      = Some (JNum h)"
    using assms(3,4) by (rule map_of_assign_hit)
  ultimately show ?thesis by simp
qed

theorem load_displayHeight_from_input_witness:
  "accepted ex_file_height \<and>
   get_prop ex_file_height ''image'' = Some (JObj [(''displayHeight'', JNum (Fin 100))]) \<and>
   load (initial ex_now) (Inr ex_file_height) =
     Some ((initial ex_now)
       \<lparr>project := (project (initial ex_now))\<lparr>p_image := empty_image\<lparr>displayHeight := Fin 100\<rparr>\<rparr>\<rparr>) \<and>
   displayHeight (p_image (project ((initial ex_now)
       \<lparr>project := (project (initial ex_now))\<lparr>p_image := empty_image\<lparr>displayHeight := Fin 100\<rparr>\<rparr>\<rparr>)))
     = Fin 100"
proof -
  let ?a' = "(initial ex_now)
       \<lparr>project := (project (initial ex_now))\<lparr>p_image := empty_image\<lparr>displayHeight := Fin 100\<rparr>\<rparr>\<rparr>"
  have a: "accepted ex_file_height"
    by code_simp
  have g: "get_prop ex_file_height ''image'' = Some (JObj [(''displayHeight'', JNum (Fin 100))])"
    by code_simp
  have l: "load (initial ex_now) (Inr ex_file_height) = Some ?a'"
    by code_simp
  have "displayHeight (p_image (project ?a')) = Fin 100"
    using load_displayHeight_from_input [OF a g _ _ l, of "Fin 100"] by simp
  with a g l show ?thesis by blast
qed

section \<open>Links between rows and labels\<close>

lemma links_ok_iff:
  "links_ok p =
     (\<forall>r\<in>set (p_rows p). \<forall>l. r_labelId r = Some l \<longrightarrow> l \<in> lb_id ` set (p_labels p))"
  by (auto simp: links_ok_def list_all_iff split: option.splits)

lemma links_initial: "links_ok (project (initial now))"
  by (simp add: links_ok_iff initial_def)

lemma links_onNew: "links_ok (project (onNew now a))"
  by (simp add: links_ok_iff onNew_def)

text \<open>A new label and its row, as both drop handlers add them.\<close>

lemma links_add_pair:
  assumes "links_ok (project a)"
  shows "links_ok (project (createRowForLabel rnd label
           (a\<lparr>project := (project a)\<lparr>p_labels := p_labels (project a) @ [label]\<rparr>,
              selectedLabelId := s\<rparr>)))"
  using assms by (auto simp: links_ok_iff createRowForLabel_def Let_def)

lemma links_handleCanvasDrop:
  assumes "links_ok (project a)"
  shows "links_ok (project (handleCanvasDrop container img rndL rndR e a))"
  using assms links_add_pair [OF assms]
  by (simp add: handleCanvasDrop_def Let_def split: option.splits)

lemma links_handleSideDrop:
  assumes "links_ok (project a)"
  shows "links_ok (project (handleSideDrop rndL rndR e a))"
  using assms links_add_pair [OF assms]
  by (simp add: handleSideDrop_def Let_def)

lemma lb_id_moved:
  "lb_id ` (\<lambda>lb. if lb_id lb = labelId then lb\<lparr>lb_x := x, lb_y := y\<rparr> else lb) ` S = lb_id ` S"
proof -
  have "lb_id (if lb_id lb = labelId then lb\<lparr>lb_x := x, lb_y := y\<rparr> else lb) = lb_id lb" for lb
    by simp
  then show ?thesis
    unfolding image_image by (rule image_cong [OF refl])
qed

lemma r_labelId_moved:
  "r_labelId ` (\<lambda>r. if r_labelId r = Some labelId then r\<lparr>r_position := v\<rparr> else r) ` S
     = r_labelId ` S"
proof -
  have "r_labelId (if r_labelId r = Some labelId then r\<lparr>r_position := v\<rparr> else r) = r_labelId r"
    for r
    by simp
  then show ?thesis
    unfolding image_image by (rule image_cong [OF refl])
qed

lemma links_ok_sets:
  "links_ok p =
     (\<forall>l. Some l \<in> r_labelId ` set (p_rows p) \<longrightarrow> l \<in> lb_id ` set (p_labels p))"
  unfolding links_ok_iff by (metis (no_types, lifting) image_iff)

lemma links_onMove:
  assumes "links_ok (project a)"
  shows "links_ok (project (onMove rect labelId ev a))"
proof -
  have ids: "lb_id ` set (p_labels (project (onMove rect labelId ev a)))
      = lb_id ` set (p_labels (project a))"
    by (simp add: onMove_def Let_def lb_id_moved del: if_image_distrib)
  have refs: "r_labelId ` set (p_rows (project (onMove rect labelId ev a)))
      = r_labelId ` set (p_rows (project a))"
    by (simp add: onMove_def Let_def r_labelId_moved del: if_image_distrib)
  show ?thesis
    using assms unfolding links_ok_sets ids refs .
qed

lemma links_deleteLabel:
  assumes "links_ok (project a)"
    and "ok \<or> filter (\<lambda>r. r_labelId r = Some labelId) (p_rows (project a)) = []"
  shows "links_ok (project (deleteLabel ok labelId a))"
proof -
  let ?p = "project a" and ?q = "project (deleteLabel ok labelId a)"
  have rows: "set (p_rows ?q) \<subseteq> {r \<in> set (p_rows ?p). r_labelId r \<noteq> Some labelId}"
    using assms(2) by (auto simp: deleteLabel_def Let_def filter_empty_conv)
  have labels: "set (p_labels ?q) = {l \<in> set (p_labels ?p). lb_id l \<noteq> labelId}"
    by (auto simp: deleteLabel_def Let_def)
  show ?thesis
    unfolding links_ok_iff
  proof (intro ballI allI impI)
    fix r l
    assume r: "r \<in> set (p_rows ?q)" and l: "r_labelId r = Some l"
    from r rows have "r \<in> set (p_rows ?p)" and "r_labelId r \<noteq> Some labelId" by auto
    with l assms(1) have "l \<in> lb_id ` set (p_labels ?p)" and "l \<noteq> labelId"
      by (auto simp: links_ok_iff)
    then show "l \<in> lb_id ` set (p_labels ?q)"
      unfolding labels by auto
  qed
qed

lemma labelId_merge_row: "r_labelId (merge_row r patch) = patched (pt_labelId patch) (r_labelId r)"
  by (simp add: merge_row_def)

lemma links_updateRow:
  assumes "links_ok (project a)" "keeps_links (project a) (UpdateRow rowId patch)"
  shows "links_ok (project (updateRow rowId patch a))"
proof -
  let ?p = "project a"
  have labels: "p_labels (project (updateRow rowId patch a)) = p_labels ?p"
    by (simp add: updateRow_def)
  have rows: "set (p_rows (project (updateRow rowId patch a)))
      \<subseteq> set (p_rows ?p) \<union> (\<lambda>r. merge_row r patch) ` set (p_rows ?p)"
    by (auto simp: updateRow_def)
  show ?thesis
    unfolding links_ok_iff labels
  proof (intro ballI allI impI)
    fix r' l
    assume r': "r' \<in> set (p_rows (project (updateRow rowId patch a)))"
      and l: "r_labelId r' = Some l"
    from r' rows consider "r' \<in> set (p_rows ?p)"
      | r where "r \<in> set (p_rows ?p)" "r' = merge_row r patch"
      by auto
    then show "l \<in> lb_id ` set (p_labels ?p)"
    proof cases
      case 1
      with l assms(1) show ?thesis by (auto simp: links_ok_iff)
    next
      case 2
      show ?thesis
      proof (cases "pt_labelId patch")
        case None
        with 2 l have "r_labelId r = Some l"
          by (simp add: labelId_merge_row patched_def)
        with 2(1) assms(1) show ?thesis by (auto simp: links_ok_iff)
      next
        case (Some v)
        with 2 l have "v = Some l"
          by (simp add: labelId_merge_row patched_def)
        with Some assms(2) show ?thesis by simp
      qed
    qed
  qed
qed

lemma links_step:
  assumes "links_ok (project a)" "keeps_links (project a) x"
  shows "links_ok (project (apply_op x a))"
proof (cases x)
  case (MoveMarker rect labelId ev)
  have "links_ok (project (onStartMoveLabel labelId a))"
    using assms(1) by (simp add: onStartMoveLabel_def)
  then show ?thesis using MoveMarker by (simp add: links_onMove)
next
  case (UpdateRow rowId patch)
  then show ?thesis using assms links_updateRow by simp
qed (use assms in \<open>simp_all add: links_onNew links_handleCanvasDrop links_handleSideDrop
      links_deleteLabel\<close>,
     simp_all add: links_ok_iff onTitleChange_def updateThresholds_def image_loaded_def
      image_update_def Let_def)

lemma links_run:
  "links_ok (project a) \<Longrightarrow> allowed keeps_links ops a \<Longrightarrow> links_ok (project (run ops a))"
  unfolding run_def
  by (induction ops arbitrary: a) (simp_all add: links_step)

text \<open>
  Claim C2, as stated, fails: \<open>updateRow\<close> merges any patch, and a patch can write
  into \<open>labelId\<close> an identifier that no label has. After a drop on the image and
  such an update, the row points at no label, and no label was deleted.
\<close>

theorem updateRow_relink_counterexample:
  "\<not> links_ok (project (run ex_relink (initial ex_now))) \<and>
   map r_labelId (p_rows (project (run ex_relink (initial ex_now)))) = [Some ''L_ghost''] \<and>
   map lb_id (p_labels (project (run ex_relink (initial ex_now)))) = [''L_abc1234'']"
  by code_simp

text \<open>
  Claim C2, amended. In every document reached from the initial or a new document
  (from any document that has the property) by a run of operations in which every
  deletion of a marker that has linked rows removes them, and no update of a row writes
  into \<open>labelId\<close> an identifier that no label of the document has, every row with a
  \<open>labelId\<close> has a label with that identifier.
\<close>

theorem links_kept:
  "links_ok (project (initial now)) \<and>
   links_ok (project (onNew now a)) \<and>
   (links_ok (project a) \<and> allowed keeps_links ops a \<longrightarrow> links_ok (project (run ops a)))"
proof (intro conjI impI)
  show "links_ok (project (initial now))"
    by (rule links_initial)
  show "links_ok (project (onNew now a))"
    by (rule links_onNew)
  show "links_ok (project (run ops a))" if "links_ok (project a) \<and> allowed keeps_links ops a"
    using that links_run by blast
qed

theorem links_kept_witness:
  "links_ok (project (initial ex_now)) \<and>
   allowed keeps_links ex_ops (initial ex_now) \<and>
   links_ok (project (run ex_ops (initial ex_now))) \<and>
   map r_labelId (p_rows (project (run ex_ops (initial ex_now)))) = [Some ''L_ghi9012''] \<and>
   map lb_id (p_labels (project (run ex_ops (initial ex_now)))) = [''L_ghi9012'']"
proof -
  have a: "allowed keeps_links ex_ops (initial ex_now)"
    by code_simp
  have r: "map r_labelId (p_rows (project (run ex_ops (initial ex_now)))) = [Some ''L_ghi9012'']"
    by code_simp
  have l: "map lb_id (p_labels (project (run ex_ops (initial ex_now)))) = [''L_ghi9012'']"
    by code_simp
  note k = links_kept [of ex_now "initial ex_now" ex_ops]
  have i: "links_ok (project (initial ex_now))"
    using k by (rule conjunct1)
  have f: "links_ok (project (run ex_ops (initial ex_now)))"
    by (rule k [THEN conjunct2, THEN conjunct2, THEN mp]) (rule conjI [OF i a])
  show ?thesis
    by (intro conjI i a f r l)
qed

section \<open>Coordinates\<close>

lemma coords_ok_iff:
  "coords_ok p = (\<forall>lb\<in>set (p_labels p). in01 (lb_x lb) \<and> in01 (lb_y lb))"
  by (simp add: coords_ok_def list_all_iff)

lemma clamp01_in01: "\<not> isNaN n \<Longrightarrow> in01 (Some (clamp01 n))"
  by (cases n) (auto simp: in01_def clamp01_def Math_min_def Math_max_def isNaN_def)

lemma clamp01_NaN: "clamp01 NaN = NaN"
  by (simp add: clamp01_def Math_min_def Math_max_def isNaN_def)

lemma coords_initial: "coords_ok (project (initial now))"
  by (simp add: coords_ok_iff initial_def)

lemma coords_onNew: "coords_ok (project (onNew now a))"
  by (simp add: coords_ok_iff onNew_def)

lemma labels_createRowForLabel:
  "p_labels (project (createRowForLabel rnd label a)) = p_labels (project a)"
  by (simp add: createRowForLabel_def Let_def)

lemma coords_handleCanvasDrop:
  assumes "coords_ok (project a)"
    and "pointer_mapped (project a) (PlaceHazardOnImage container img rndL rndR e)"
  shows "coords_ok (project (handleCanvasDrop container img rndL rndR e a))"
  using assms
  by (auto simp: handleCanvasDrop_def Let_def labels_createRowForLabel coords_ok_iff mapped_def
      clamp01_in01 split: option.splits)

lemma coords_handleSideDrop:
  assumes "coords_ok (project a)"
  shows "coords_ok (project (handleSideDrop rndL rndR e a))"
  using assms
  by (auto simp: handleSideDrop_def Let_def labels_createRowForLabel coords_ok_iff in01_def)

lemma coords_onMove:
  assumes "coords_ok (project a)" "mapped rect ev"
  shows "coords_ok (project (onMove rect labelId ev a))"
  using assms
  by (auto simp: onMove_def Let_def coords_ok_iff mapped_def clamp01_in01)

lemma coords_deleteLabel:
  assumes "coords_ok (project a)"
  shows "coords_ok (project (deleteLabel ok labelId a))"
  using assms by (auto simp: deleteLabel_def Let_def coords_ok_iff)

lemma coords_step:
  assumes "coords_ok (project a)" "pointer_mapped (project a) x"
  shows "coords_ok (project (apply_op x a))"
proof (cases x)
  case (PlaceHazardOnImage container img rndL rndR e)
  then show ?thesis using assms coords_handleCanvasDrop by simp
next
  case (MoveMarker rect labelId ev)
  have "coords_ok (project (onStartMoveLabel labelId a))"
    using assms(1) by (simp add: onStartMoveLabel_def)
  then show ?thesis using MoveMarker assms(2) by (simp add: coords_onMove)
qed (use assms in \<open>simp_all add: coords_handleSideDrop coords_deleteLabel coords_onNew\<close>,
     simp_all add: coords_ok_iff updateRow_def onTitleChange_def updateThresholds_def
       image_loaded_def image_update_def Let_def)

lemma coords_run:
  "coords_ok (project a) \<Longrightarrow> allowed pointer_mapped ops a \<Longrightarrow> coords_ok (project (run ops a))"
  unfolding run_def
  by (induction ops arbitrary: a) (simp_all add: coords_step)

text \<open>
  Claim C6, as stated, fails for a loaded document: \<open>load\<close> stores the labels of the
  file as they are, whatever their coordinates.
\<close>

theorem load_coordinates_counterexample:
  "map_option (\<lambda>a. map (\<lambda>lb. (lb_x lb, lb_y lb)) (p_labels (project a)))
       (load (initial ex_now) (Inr ex_file_label))
     = Some [(Some (Fin 5), Some (Fin (- 2)))] \<and>
   \<not> in01 (Some (Fin 5)) \<and> \<not> in01 (Some (Fin (- 2))) \<and>
   map_option (\<lambda>a. coords_ok (project a)) (load (initial ex_now) (Inr ex_file_label)) = Some False"
  by code_simp

text \<open>
  Claim C6, amended. In every document reached from the initial or a new document
  (from any document that has the property) by a run of the operations of the store,
  in which every pointer that places or moves a marker has a position relative to
  the image box, every coordinate of a marker, when present, lies in the interval
  from 0 to 1. Loading a file is not an operation of such a run.
\<close>

theorem coords_kept:
  "coords_ok (project (initial now)) \<and>
   coords_ok (project (onNew now a)) \<and>
   (coords_ok (project a) \<and> allowed pointer_mapped ops a \<longrightarrow> coords_ok (project (run ops a)))"
proof (intro conjI impI)
  show "coords_ok (project (initial now))"
    by (rule coords_initial)
  show "coords_ok (project (onNew now a))"
    by (rule coords_onNew)
  show "coords_ok (project (run ops a))" if "coords_ok (project a) \<and> allowed pointer_mapped ops a"
    using that coords_run by blast
qed

theorem coords_kept_witness:
  "coords_ok (project (initial ex_now)) \<and>
   allowed pointer_mapped ex_ops (initial ex_now) \<and>
   coords_ok (project (run ex_ops (initial ex_now))) \<and>
   map (\<lambda>lb. (lb_x lb, lb_y lb))
       (p_labels (project (run (take 3 ex_ops) (initial ex_now))))
     = [(Some (Fin 1), Some (Fin 0)), (None, None)] \<and>
   coords_ok (project (run (take 3 ex_ops) (initial ex_now)))"
proof -
  have a: "allowed pointer_mapped ex_ops (initial ex_now)"
    by code_simp
  have a3: "allowed pointer_mapped (take 3 ex_ops) (initial ex_now)"
    by code_simp
  have m: "map (\<lambda>lb. (lb_x lb, lb_y lb))
       (p_labels (project (run (take 3 ex_ops) (initial ex_now))))
     = [(Some (Fin 1), Some (Fin 0)), (None, None)]"
    by code_simp
  note k = coords_kept [of ex_now "initial ex_now" ex_ops]
  note k3 = coords_kept [of ex_now "initial ex_now" "take 3 ex_ops"]
  have i: "coords_ok (project (initial ex_now))"
    using k by (rule conjunct1)
  have f: "coords_ok (project (run ex_ops (initial ex_now)))"
    by (rule k [THEN conjunct2, THEN conjunct2, THEN mp]) (rule conjI [OF i a])
  have f3: "coords_ok (project (run (take 3 ex_ops) (initial ex_now)))"
    by (rule k3 [THEN conjunct2, THEN conjunct2, THEN mp]) (rule conjI [OF i a3])
  show ?thesis
    by (intro conjI i a f m f3)
qed

section \<open>Saving and loading\<close>

subsection \<open>Reading a typed value back\<close>

lemma opt_str_back: "opt_str (map_option JStr v) = Some v"
  by (cases v) (simp_all add: opt_str_def)

lemma opt_num_back: "opt_num (map_option JNum v) = Some v"
  by (cases v) (simp_all add: opt_num_def)

lemma opt_score_back: "opt_score (map_option value_of_score v) = Some v"
proof (cases v)
  case None
  then show ?thesis by (simp add: opt_score_def)
next
  case (Some s)
  then show ?thesis by (cases s) (simp_all add: opt_score_def value_of_score_def)
qed

lemma as_status_back: "as_status (status_text s) = Some s"
  by (cases s) (simp_all add: as_status_def status_text_def)

lemma opt_status_back: "opt_status (map_option (JStr \<circ> status_text) v) = Some v"
  by (cases v) (simp_all add: opt_status_def as_status_back)

lemma as_mode_back: "as_mode (Some (JStr (mode_text m))) = Some m"
  by (cases m) (simp_all add: as_mode_def mode_text_def)

lemmas read_back = opt_str_back opt_num_back opt_score_back opt_status_back as_mode_back

lemma as_Thresholds_back: "as_Thresholds (value_of_Thresholds t) = Some t"
  by (cases t) (simp add: value_of_Thresholds_def keys_in_def req_num_def)

lemma as_Scoring_back: "as_Scoring (value_of_Scoring s) = Some s"
  by (cases s) (simp add: value_of_Scoring_def keys_in_def req_num_def req_str_def as_mode_back
      as_Thresholds_back)

lemma as_Settings_back: "as_Settings (value_of_Settings s) = Some s"
  by (cases s) (simp add: value_of_Settings_def keys_in_def as_Scoring_back)

lemma as_Meta_back: "as_Meta (value_of_Meta m) = Some m"
  by (cases m) (simp add: value_of_Meta_def keys_in_def req_str_def)

lemma as_LabelInstance_back: "as_LabelInstance (value_of_LabelInstance lb) = Some lb"
  by (cases lb)
    (simp add: value_of_LabelInstance_def keys_in_obj_of map_of_obj_of req_str_def read_back)

lemma as_Row_back: "as_Row (value_of_Row r) = Some r"
  by (cases r)
    (simp add: value_of_Row_def row_keys_def keys_in_obj_of map_of_obj_of req_str_def read_back)

lemma those_back:
  assumes "\<And>x. f (g x) = Some x"
  shows "those (map (f \<circ> g) xs) = Some xs"
  by (induction xs) (simp_all add: assms)

lemma as_array_back:
  assumes "\<And>x. f (g x) = Some x"
  shows "as_array f (JArr (map g xs)) = Some xs"
  using those_back [of f g xs, OF assms] by (simp add: as_array_def)

text \<open>The image that \<open>opened\<close> builds from a saved one.\<close>

lemma as_ImageInfo_assign:
  "as_ImageInfo (JObj (assign [(''displayHeight'', v)] (spread (value_of_ImageInfo i)))) = Some i"
proof -
  let ?kvs = "[(''displayHeight'', Some (JNum (displayHeight i))),
        (''dataUrl'', map_option JStr (dataUrl i)),
        (''displayWidth'', map_option JNum (displayWidth i)),
        (''naturalWidth'', map_option JNum (naturalWidth i)),
        (''naturalHeight'', map_option JNum (naturalHeight i))]"
  have d: "distinct (map fst (obj_of ?kvs))"
    by (rule distinct_obj_of) simp
  have k: "keys_in (assign [(''displayHeight'', v)] (obj_of ?kvs))
     [''dataUrl'', ''naturalWidth'', ''naturalHeight'', ''displayHeight'', ''displayWidth'']"
    using keys_obj_of [of ?kvs] by (auto simp: keys_in_def keys_assign)
  show ?thesis
    using k
    by (simp add: value_of_ImageInfo_def map_of_assign_other [OF d] map_of_assign_hit [OF d]
        map_of_obj_of req_num_def read_back)
qed

subsection \<open>What the written text keeps\<close>

lemma json_of_double: "is_double n \<Longrightarrow> json_of (JNum n) = JNum n"
  by (cases n) simp_all

lemma json_of_opt_str: "map_option json_of (map_option JStr v) = map_option JStr v"
  by (cases v) simp_all

lemma json_of_opt_num: "fin_opt v \<Longrightarrow> map_option json_of (map_option JNum v) = map_option JNum v"
  by (cases v) (simp_all add: fin_opt_def json_of_double del: json_of.simps(3))

lemma json_of_opt_score:
  "fin_score v \<Longrightarrow> map_option json_of (map_option value_of_score v) = map_option value_of_score v"
proof (cases v)
  case None
  then show ?thesis by simp
next
  case (Some s)
  assume "fin_score v"
  with Some show ?thesis
    by (cases s) (simp_all add: fin_score_def value_of_score_def json_of_double del: json_of.simps(3))
qed

lemma json_of_opt_status:
  "map_option json_of (map_option (JStr \<circ> status_text) v) = map_option (JStr \<circ> status_text) v"
  by (cases v) simp_all

lemma json_of_obj:
  "json_of (JObj (obj_of kvs)) = JObj (obj_of (map (map_prod id (map_option json_of)) kvs))"
  by (simp add: json_of_obj_of)

lemma json_of_LabelInstance:
  "fin_label lb \<Longrightarrow> json_of (value_of_LabelInstance lb) = value_of_LabelInstance lb"
  unfolding value_of_LabelInstance_def json_of_obj
  by (simp add: fin_label_def json_of_opt_str json_of_opt_num)

lemma json_of_Row: "fin_row r \<Longrightarrow> json_of (value_of_Row r) = value_of_Row r"
  unfolding value_of_Row_def json_of_obj
  by (simp add: fin_row_def json_of_opt_str json_of_opt_num json_of_opt_score json_of_opt_status)

lemma json_of_ImageInfo: "fin_image i \<Longrightarrow> json_of (value_of_ImageInfo i) = value_of_ImageInfo i"
  unfolding value_of_ImageInfo_def json_of_obj
  by (simp add: fin_image_def json_of_opt_str json_of_opt_num json_of_double del: json_of.simps(3))

lemma json_of_Meta: "json_of (value_of_Meta m) = value_of_Meta m"
  by (simp add: value_of_Meta_def)

lemma json_of_Settings: "fin_settings s \<Longrightarrow> json_of (value_of_Settings s) = value_of_Settings s"
  unfolding value_of_Settings_def value_of_Scoring_def value_of_Thresholds_def
  by (simp add: fin_settings_def json_of_double del: json_of.simps(3))

lemma json_of_list:
  assumes "list_all P xs" and "\<And>x. P x \<Longrightarrow> json_of (g x) = g x"
  shows "map json_of (map g xs) = map g xs"
  using assms(1) by (induction xs) (simp_all add: assms(2))
subsection \<open>The round trip\<close>

lemma json_of_ProjectState:
  assumes "finite_numbers p"
  shows "json_of (value_of_ProjectState p) = value_of_ProjectState p"
proof -
  have l: "map json_of (map value_of_LabelInstance (p_labels p))
      = map value_of_LabelInstance (p_labels p)"
    using assms by (intro json_of_list [where P = fin_label] json_of_LabelInstance)
      (simp_all add: finite_numbers_def)
  have r: "map json_of (map value_of_Row (p_rows p)) = map value_of_Row (p_rows p)"
    using assms by (intro json_of_list [where P = fin_row] json_of_Row)
      (simp_all add: finite_numbers_def)
  show ?thesis
    using assms l r
    by (simp add: value_of_ProjectState_def finite_numbers_def json_of_Meta json_of_Settings
        json_of_ImageInfo json_of_double del: map_map json_of.simps(3))
qed

lemma value_of_Meta_not_null: "nullish (Some (value_of_Meta m)) d = value_of_Meta m"
  by (simp add: nullish_def value_of_Meta_def)

lemma value_of_Settings_not_null: "nullish (Some (value_of_Settings s)) d = value_of_Settings s"
  by (simp add: nullish_def value_of_Settings_def)

lemma value_of_ImageInfo_truthy: "or_else (Some (value_of_ImageInfo i)) d = value_of_ImageInfo i"
  by (simp add: or_else_def value_of_ImageInfo_def)

lemma opened_saved:
  "as_ProjectState (opened prev (value_of_ProjectState p)) = Some (p\<lparr>p_schemaVersion := Fin 1\<rparr>)"
  unfolding value_of_ProjectState_def opened_def
  by (simp add: keys_in_def req_num_def value_of_Meta_not_null value_of_Settings_not_null
      value_of_ImageInfo_truthy as_ImageInfo_assign as_Meta_back as_Settings_back
      array_or_empty_def as_array_back as_LabelInstance_back as_Row_back
      del: as_ImageInfo.simps)

lemma saved_accepted: "accepted (value_of_ProjectState p)"
  by (simp add: accepted_def value_of_ProjectState_def)

lemma load_saved:
  assumes "finite_numbers (project a0)"
  shows "load a (Inr (snd (onSave a0)))
    = Some (a\<lparr>project := (project a0)\<lparr>p_schemaVersion := Fin 1\<rparr>, error := None\<rparr>)"
  using saved_accepted [of "project a0"]
  by (simp add: load_def onSave_def json_of_ProjectState [OF assms] opened_saved accepted_def)

text \<open>
  Claim C1, as stated, fails for a document that holds a number that is not finite:
  \<open>JSON.stringify\<close> writes \<open>NaN\<close> and the infinities as \<open>null\<close>. A hazard dropped on
  an image box without width, the pointer on its left edge, gets the coordinate
  \<open>0 / 0\<close>, which \<open>clamp01\<close> leaves as it is. The saved text has \<open>null\<close> in its place,
  and so has the value that \<open>onOpen\<close> stores, which is no \<open>LabelInstance\<close>.
\<close>

theorem save_load_NaN_counterexample:
  "map lb_x (p_labels (project ex_degenerate)) = [Some NaN] \<and>
   get_prop (snd (onSave ex_degenerate)) ''labels'' =
     Some (JArr [JObj [(''id'', JStr ''L_abc1234''), (''type'', JStr ''Bruit''), (''x'', JNull),
                       (''y'', JNum (Fin (1 / 4)))]]) \<and>
   get_prop (opened (project (initial ex_now)) (snd (onSave ex_degenerate))) ''labels'' =
     Some (JArr [JObj [(''id'', JStr ''L_abc1234''), (''type'', JStr ''Bruit''), (''x'', JNull),
                       (''y'', JNum (Fin (1 / 4)))]]) \<and>
   load (initial ex_now) (Inr (snd (onSave ex_degenerate))) = None"
  by code_simp

text \<open>
  Claim C1, amended. For every document whose numbers are all finite doubles (so for
  every document produced through the operations of the store that holds neither
  \<open>NaN\<close> nor an infinity), loading what \<open>onSave\<close> writes succeeds without an error
  and stores a document with the same labels, rows, metadata and settings, and the
  same image; numbers are compared as \<open>===\<close> compares them.
\<close>

theorem save_load_roundtrip:
  "finite_numbers (project a0) \<longrightarrow>
     load a (Inr (snd (onSave a0)))
       = Some (a\<lparr>project := (project a0)\<lparr>p_schemaVersion := Fin 1\<rparr>, error := None\<rparr>) \<and>
     map_option (\<lambda>a'. p_labels (project a')) (load a (Inr (snd (onSave a0))))
       = Some (p_labels (project a0)) \<and>
     map_option (\<lambda>a'. p_rows (project a')) (load a (Inr (snd (onSave a0))))
       = Some (p_rows (project a0)) \<and>
     map_option (\<lambda>a'. p_meta (project a')) (load a (Inr (snd (onSave a0))))
       = Some (p_meta (project a0)) \<and>
     map_option (\<lambda>a'. p_settings (project a')) (load a (Inr (snd (onSave a0))))
       = Some (p_settings (project a0)) \<and>
     map_option (\<lambda>a'. p_image (project a')) (load a (Inr (snd (onSave a0))))
       = Some (p_image (project a0)) \<and>
     map_option error (load a (Inr (snd (onSave a0)))) = Some None"
proof
  assume "finite_numbers (project a0)"
  then have l: "load a (Inr (snd (onSave a0)))
      = Some (a\<lparr>project := (project a0)\<lparr>p_schemaVersion := Fin 1\<rparr>, error := None\<rparr>)"
    by (rule load_saved)
  show "load a (Inr (snd (onSave a0)))
       = Some (a\<lparr>project := (project a0)\<lparr>p_schemaVersion := Fin 1\<rparr>, error := None\<rparr>) \<and>
     map_option (\<lambda>a'. p_labels (project a')) (load a (Inr (snd (onSave a0))))
       = Some (p_labels (project a0)) \<and>
     map_option (\<lambda>a'. p_rows (project a')) (load a (Inr (snd (onSave a0))))
       = Some (p_rows (project a0)) \<and>
     map_option (\<lambda>a'. p_meta (project a')) (load a (Inr (snd (onSave a0))))
       = Some (p_meta (project a0)) \<and>
     map_option (\<lambda>a'. p_settings (project a')) (load a (Inr (snd (onSave a0))))
       = Some (p_settings (project a0)) \<and>
     map_option (\<lambda>a'. p_image (project a')) (load a (Inr (snd (onSave a0))))
       = Some (p_image (project a0)) \<and>
     map_option error (load a (Inr (snd (onSave a0)))) = Some None"
    unfolding l by simp
qed

theorem save_load_roundtrip_witness:
  "finite_numbers (project ex_scored) \<and>
   map lb_x (p_labels (project ex_scored)) = [Some (Fin (1 / 2))] \<and>
   map r_S (p_rows (project ex_scored)) = [Some (Score (Fin 3))] \<and>
   load (initial ex_now) (Inr (snd (onSave ex_scored)))
     = Some ((initial ex_now)\<lparr>project := (project ex_scored)\<lparr>p_schemaVersion := Fin 1\<rparr>,
                                error := None\<rparr>) \<and>
   map_option (\<lambda>a'. p_labels (project a')) (load (initial ex_now) (Inr (snd (onSave ex_scored))))
     = Some (p_labels (project ex_scored)) \<and>
   map_option (\<lambda>a'. p_rows (project a')) (load (initial ex_now) (Inr (snd (onSave ex_scored))))
     = Some (p_rows (project ex_scored))"
proof -
  have f: "finite_numbers (project ex_scored)"
    by code_simp
  have x: "map lb_x (p_labels (project ex_scored)) = [Some (Fin (1 / 2))]"
    by code_simp
  have s: "map r_S (p_rows (project ex_scored)) = [Some (Score (Fin 3))]"
    by code_simp
  note t = save_load_roundtrip [of ex_scored "initial ex_now", THEN mp, OF f]
  show ?thesis
    by (intro conjI f x s t [THEN conjunct1] t [THEN conjunct2, THEN conjunct1]
        t [THEN conjunct2, THEN conjunct2, THEN conjunct1])
qed

section \<open>Export\<close>

lemma replaceAll_doubled: "replaceAll dquote [dquote, dquote] s = doubled s"
  by (induction s) (simp_all add: replaceAll_def)

lemma csv_cell_CStr: "csv_cell fmt (CStr s) = quoted s"
  by (simp add: csv_cell_def quoted_def replaceAll_doubled)

lemma csv_cell_CNum: "csv_cell fmt (CNum n) = String_num fmt n"
  by (simp add: csv_cell_def)

lemma csv_cell_str: "csv_cell fmt (str_cell v) = text_field v"
  by (cases v) (simp_all add: str_cell_def text_field_def csv_cell_CStr)

lemma csv_cell_score: "csv_cell fmt (score_cell v) = score_field fmt v"
proof (cases v)
  case None
  then show ?thesis by (simp add: score_cell_def score_field_def csv_cell_CStr)
next
  case (Some s)
  then show ?thesis
    by (cases s) (simp_all add: score_cell_def score_field_def csv_cell_CStr csv_cell_CNum)
qed

lemma csv_cell_num: "csv_cell fmt (num_cell v) = risk_field fmt v"
  by (cases v) (simp_all add: num_cell_def risk_field_def csv_cell_CStr csv_cell_CNum)

lemma export_line_enriched:
  "join '','' (map (csv_cell fmt) (row_cells (enrichRowComputed r))) = export_line fmt r"
  by (simp add: row_cells_def enrichRowComputed_def Let_def export_line_def csv_cell_CStr
      csv_cell_str csv_cell_score csv_cell_num del: join.simps)

lemma export_lines_enriched:
  "map (\<lambda>r. join '','' (map (csv_cell fmt) (row_cells r))) (map enrichRowComputed rs)
     = map (export_line fmt) rs"
  by (induction rs) (simp_all add: export_line_enriched del: join.simps)

text \<open>
  Claim C4, as stated, fails for a score that is empty and for a risk that cannot be
  computed: the cell is then the empty string, which is a string, and the export
  writes it between quotes like every string. The row of a hazard that was just
  placed has two quote characters in each of its score and risk fields.
\<close>

theorem export_empty_score_counterexample:
  "map (\<lambda>r. (r_S r, r_P r, computeR (r_S r) (r_P r))) (p_rows (project ex_placed))
     = [(Some Blank, Some Blank, None)] \<and>
   map (\<lambda>r. map (csv_cell String_int) (row_cells (enrichRowComputed r))) (p_rows (project ex_placed))
     = [[[dquote] @ ''R_def5678'' @ [dquote], [dquote] @ ''Bruit'' @ [dquote],
         [dquote, dquote], [dquote, dquote], [dquote, dquote], [dquote, dquote],
         [dquote, dquote], [dquote, dquote], [dquote, dquote], [dquote, dquote],
         [dquote, dquote]]] \<and>
   [dquote, dquote] \<noteq> ''''"
  by code_simp

text \<open>
  Claim C4, amended. The export is the header line and one line for every row, each
  line the eleven fields joined by commas: a text field between quote characters
  with every quote of the text written twice; a score or a risk that is a number as
  \<open>String\<close> writes the number, without quotes; and an empty or absent score, and a
  risk that cannot be computed, as two quote characters with nothing between them.
\<close>

theorem toCsv_fields:
  "toCsv fmt (map enrichRowComputed rs) =
     join [newline] (join '','' csv_headers # map (export_line fmt) rs) \<and>
   snd (onExportCsv fmt a) =
     join [newline] (join '','' csv_headers # map (export_line fmt) (p_rows (project a)))"
proof
  show "toCsv fmt (map enrichRowComputed rs) =
     join [newline] (join '','' csv_headers # map (export_line fmt) rs)"
    unfolding toCsv_def Let_def export_lines_enriched ..
  show "snd (onExportCsv fmt a) =
     join [newline] (join '','' csv_headers # map (export_line fmt) (p_rows (project a)))"
    unfolding onExportCsv_def snd_conv toCsv_def Let_def export_lines_enriched ..
qed

theorem toCsv_fields_witness:
  "snd (onExportCsv String_int ex_scored) =
     join [newline]
       [''ID,Danger,Sc'' @ [CHR 0xC3, CHR 0xA9] @ ''nario,S,P,R,Mesures,Sr,Pr,Rr,Commentaires'',
        join '',''
          [[dquote] @ ''R_def5678'' @ [dquote], [dquote] @ ''Bruit'' @ [dquote],
           [dquote] @ ''a'' @ [dquote, dquote] @ ''b'' @ [dquote],
           ''3'', ''4'', ''12'',
           [dquote, dquote], [dquote, dquote], [dquote, dquote], [dquote, dquote],
           [dquote, dquote]]]"
proof -
  have l: "join [newline] (join '','' csv_headers # map (export_line String_int) (p_rows (project ex_scored)))
    = join [newline]
       [''ID,Danger,Sc'' @ [CHR 0xC3, CHR 0xA9] @ ''nario,S,P,R,Mesures,Sr,Pr,Rr,Commentaires'',
        join '',''
          [[dquote] @ ''R_def5678'' @ [dquote], [dquote] @ ''Bruit'' @ [dquote],
           [dquote] @ ''a'' @ [dquote, dquote] @ ''b'' @ [dquote],
           ''3'', ''4'', ''12'',
           [dquote, dquote], [dquote, dquote], [dquote, dquote], [dquote, dquote],
           [dquote, dquote]]]"
    by code_simp
  show ?thesis
    by (rule trans [OF toCsv_fields [of String_int "[]" ex_scored, THEN conjunct2] l])
qed

end
